theory Spec2Isabelle
  imports Complex_Main
begin

section \<open>The room-booking engine: data model\<close>

text \<open>
  The development embeds the booking model (\<^verbatim>\<open>src/models/RoomBooking.js\<close>), the
  booking controller (\<^verbatim>\<open>controllers/roomBookingController.js\<close>), the booking
  routes and the Joi schemas of the booking requests.

  Conventions of the embedding.
  \<^item> An ObjectId is a natural number; a \<^verbatim>\<open>Date\<close> is its \<^verbatim>\<open>getTime()\<close>, an
    integer number of milliseconds.
  \<^item> A JavaScript number is a double. A quotient that the code only compares with a
    constant or rounds up to an integer (hours until check-in, nights) is taken exactly.
    A price is a product: it is the exact product rounded to the nearest double, as
    the machine computes it (\<open>js_mul\<close> below).
  \<^item> A collection is the list of its documents; \<^verbatim>\<open>find\<close> filters it,
    \<^verbatim>\<open>findById\<close> returns the first document with the identifier.
  \<^item> The clock is read once per request: \<open>now\<close> is a parameter of every operation that
    calls \<^verbatim>\<open>new Date()\<close> or validates against \<^verbatim>\<open>'now'\<close>.
  \<^item> The free-text fields of a booking (names, phone number, discount code, notes,
    WhatsApp link) take no part in any decision of the controller and are left out.
  \<^item> A response carries the stored booking; the documents that \<^verbatim>\<open>populate\<close> puts
    in place of its references matter only where the controller reads them.
\<close>

type_synonym objectId = nat
type_synonym date = int

subsection \<open>Numbers\<close>

text \<open>
  A value of the JavaScript type \<^verbatim>\<open>Number\<close> that a product can yield from finite
  factors: a finite double, given by the real number it denotes (\<^verbatim>\<open>-0\<close> and
  \<^verbatim>\<open>0\<close> are not told apart), or an infinity. The factors of a price are the base
  price of a room, a finite number, and the nights of a stay, an integer.
\<close>

datatype number = Finite real | Infinity | NegInfinity

text \<open>
  Rounding of a real number to the nearest double (IEEE 754 binary64, round to nearest,
  ties to even). \<open>lg n\<close> is the position of the leading bit of \<open>n\<close>, and \<open>binade x\<close>
  is the exponent \<open>e\<close> with \<^verbatim>\<open>2^e <= |x| < 2^(e+1)\<close>. The doubles of that binade
  are the multiples of \<^verbatim>\<open>2^(e-52)\<close> (53 significant bits); below \<^verbatim>\<open>2^(-1022)\<close>
  they are the multiples of \<^verbatim>\<open>2^(-1074)\<close>. A number is rounded to the nearest
  multiple, to the even one when it lies halfway between two, and to an infinity when
  the result reaches \<^verbatim>\<open>2^1024\<close>.
\<close>

fun lg :: "nat \<Rightarrow> nat" where
  "lg n = (if n < 2 then 0 else Suc (lg (n div 2)))"

definition binade :: "real \<Rightarrow> int" where
  "binade x =
     (if 1 \<le> \<bar>x\<bar> then int (lg (nat \<lfloor>\<bar>x\<bar>\<rfloor>))
      else - int (Suc (lg (nat \<lceil>1 / \<bar>x\<bar>\<rceil> - 1))))"

definition round_even :: "real \<Rightarrow> int" where
  "round_even x =
     (let f = \<lfloor>x\<rfloor>; d = x - of_int f
      in if d < 1 / 2 then f else if 1 / 2 < d then f + 1 else if even f then f else f + 1)"

definition ulp_of :: "real \<Rightarrow> real" where
  "ulp_of x = 2 powi (max (binade x) (- 1022) - 52)"

definition round_double :: "real \<Rightarrow> number" where
  "round_double x =
     (if x = 0 then Finite 0
      else
        let r = of_int (round_even (x / ulp_of x)) * ulp_of x
        in if 2 ^ 1024 \<le> \<bar>r\<bar> then (if 0 < x then Infinity else NegInfinity) else Finite r)"

text \<open>The operator \<^verbatim>\<open>*\<close> on two finite doubles.\<close>

definition js_mul :: "real \<Rightarrow> real \<Rightarrow> number" where
  "js_mul x y = round_double (x * y)"

subsection \<open>Documents\<close>

datatype role = super_admin | city_admin | owner | customer

datatype hotel_status = hotel_pending | approved | hotel_rejected

datatype booking_status = pending | confirmed | cancelled | rejected

record user =
  u_id :: objectId
  role :: role
  u_cityId :: "objectId option"

record hotel =
  h_id :: objectId
  h_ownerId :: objectId
  h_cityId :: objectId
  h_status :: hotel_status
  isVisible :: bool

record room =
  r_id :: objectId
  r_hotelId :: objectId
  basePrice :: real

record booking =
  b_id :: objectId
  userId :: objectId
  ownerId :: objectId
  roomId :: objectId
  hotelId :: objectId
  checkIn :: date
  checkOut :: date
  adults :: int
  children :: int
  price :: number
  status :: booking_status

record db =
  users :: "user list"
  hotels :: "hotel list"
  rooms :: "room list"
  bookings :: "booking list"

text \<open>
  An \<^verbatim>\<open>AppError\<close> carries its message and HTTP status. A Joi middleware answers 400
  with the message \<^verbatim>\<open>Validation error\<close> and the offending field. Any other thrown
  error (a Mongoose validation error, an \<^verbatim>\<open>Error\<close> of a pre-save hook, a
  \<^verbatim>\<open>TypeError\<close>) reaches the global handler without a status and is answered 500.
\<close>

datatype error = AppError string nat | JoiValidation string | Thrown string


definition findUser :: "user list \<Rightarrow> objectId \<Rightarrow> user option" where
  "findUser us i = find (\<lambda>u. u_id u = i) us"

definition findHotel :: "hotel list \<Rightarrow> objectId \<Rightarrow> hotel option" where
  "findHotel hs i = find (\<lambda>h. h_id h = i) hs"

definition findRoom :: "room list \<Rightarrow> objectId \<Rightarrow> room option" where
  "findRoom rs i = find (\<lambda>r. r_id r = i) rs"

definition findBooking :: "booking list \<Rightarrow> objectId \<Rightarrow> booking option" where
  "findBooking bs i = find (\<lambda>b. b_id b = i) bs"

section \<open>The booking model\<close>

subsection \<open>Availability\<close>

text \<open>
  \<^verbatim>\<open>checkRoomAvailability(roomId, checkIn, checkOut, excludeBookingId = null)\<close> returns
  the documents matching the filter: same room, status pending or confirmed,
  \<^verbatim>\<open>checkIn < checkOut'\<close> and \<^verbatim>\<open>checkOut > checkIn'\<close>, and, when an identifier to
  exclude is given, \<^verbatim>\<open>_id \<noteq> excludeBookingId\<close>. The callers test
  \<^verbatim>\<open>conflictingBookings.length > 0\<close>.
\<close>

definition checkRoomAvailability ::
  "booking list \<Rightarrow> objectId \<Rightarrow> date \<Rightarrow> date \<Rightarrow> objectId option \<Rightarrow> booking list" where
  "checkRoomAvailability bs rid ci co excludeBookingId =
     filter (\<lambda>b. roomId b = rid
               \<and> status b \<in> {pending, confirmed}
               \<and> checkIn b < co \<and> checkOut b > ci
               \<and> (case excludeBookingId of None \<Rightarrow> True | Some x \<Rightarrow> b_id b \<noteq> x)) bs"

definition hasConflict ::
  "booking list \<Rightarrow> objectId \<Rightarrow> date \<Rightarrow> date \<Rightarrow> objectId option \<Rightarrow> bool" where
  "hasConflict bs rid ci co excludeBookingId =
     (length (checkRoomAvailability bs rid ci co excludeBookingId) > 0)"

subsection \<open>Nights, ownership and the time windows\<close>

text \<open>
  \<^verbatim>\<open>Math.ceil((checkOut - checkIn) / (1000 * 60 * 60 * 24))\<close>, as the controller, the
  pre-save hook and the \<^verbatim>\<open>nights\<close> virtual compute it.
\<close>

definition nights :: "date \<Rightarrow> date \<Rightarrow> int" where
  "nights ci co = \<lceil>real_of_int (co - ci) / (1000 * 60 * 60 * 24)\<rceil>"

text \<open>
  A reference path of a document (\<^verbatim>\<open>userId\<close>, \<^verbatim>\<open>ownerId\<close>) holds an ObjectId;
  once the path is populated it holds the referenced document, or \<^verbatim>\<open>null\<close> when
  there is none. \<^verbatim>\<open>toString()\<close> of an ObjectId is its 24 hexadecimal digits;
  \<^verbatim>\<open>toString()\<close> of a document is the printed document (the persistence library's
  helper for \<^verbatim>\<open>console.log\<close>), which is the text of no identifier; on
  \<^verbatim>\<open>null\<close> the call throws a \<^verbatim>\<open>TypeError\<close>.
\<close>

datatype userRef = Ref objectId | Doc user | Null

datatype jsString = HexString objectId | InspectString user

fun toString :: "userRef \<Rightarrow> jsString option" where
  "toString (Ref i) = Some (HexString i)"
| "toString (Doc u) = Some (InspectString u)"
| "toString Null = None"

definition populate :: "user list \<Rightarrow> objectId \<Rightarrow> userRef" where
  "populate us i = (case findUser us i of None \<Rightarrow> Null | Some u \<Rightarrow> Doc u)"

text \<open>
  \<^verbatim>\<open>isOwnedByUser(userId)\<close> is \<^verbatim>\<open>this.userId.toString() === userId.toString()\<close>:
  the first argument is what \<^verbatim>\<open>this.userId\<close> holds, the second the principal's
  ObjectId. \<^verbatim>\<open>isOwnedByHotelOwner\<close> is the same on \<^verbatim>\<open>this.ownerId\<close>.
\<close>

definition isOwnedByUser :: "userRef \<Rightarrow> objectId \<Rightarrow> error + bool" where
  "isOwnedByUser this_userId uid =
     (case toString this_userId of
        None \<Rightarrow> Inl (Thrown ''TypeError'')
      | Some s \<Rightarrow> Inr (s = HexString uid))"

definition isOwnedByHotelOwner :: "userRef \<Rightarrow> objectId \<Rightarrow> error + bool" where
  "isOwnedByHotelOwner this_ownerId oid =
     (case toString this_ownerId of
        None \<Rightarrow> Inl (Thrown ''TypeError'')
      | Some s \<Rightarrow> Inr (s = HexString oid))"

definition hoursUntilCheckIn :: "date \<Rightarrow> booking \<Rightarrow> real" where
  "hoursUntilCheckIn now b = real_of_int (checkIn b - now) / (1000 * 60 * 60)"

definition canBeCancelled :: "date \<Rightarrow> booking \<Rightarrow> bool" where
  "canBeCancelled now b =
     (status b \<in> {pending, confirmed} \<and> hoursUntilCheckIn now b > 24)"

definition canBeModified :: "date \<Rightarrow> booking \<Rightarrow> bool" where
  "canBeModified now b = (status b = pending \<and> hoursUntilCheckIn now b > 48)"

subsection \<open>Schema validators\<close>

text \<open>
  The validators of the schema paths. The check-out validator reads
  \<^verbatim>\<open>this.checkIn\<close>: its second argument is what that expression yields, \<open>None\<close>
  for \<^verbatim>\<open>undefined\<close>, against which every comparison is false.
\<close>

definition checkIn_validator :: "date \<Rightarrow> date \<Rightarrow> bool" where
  "checkIn_validator now v = (v > now)"

definition checkOut_validator :: "date option \<Rightarrow> date \<Rightarrow> bool" where
  "checkOut_validator this_checkIn v =
     (case this_checkIn of None \<Rightarrow> False | Some c \<Rightarrow> v > c)"

definition adults_validator :: "int \<Rightarrow> bool" where
  "adults_validator v = (1 \<le> v \<and> v \<le> 20 \<and> v > 0)"

definition children_validator :: "int \<Rightarrow> bool" where
  "children_validator v = (0 \<le> v \<and> v \<le> 10 \<and> v \<ge> 0)"

definition price_validator :: "number \<Rightarrow> bool" where
  "price_validator v =
     (case v of Finite r \<Rightarrow> r \<ge> 0 | Infinity \<Rightarrow> True | NegInfinity \<Rightarrow> False)"

text \<open>Validation of a document before it is saved: \<^verbatim>\<open>this\<close> is the document.\<close>

definition validateDocument :: "date \<Rightarrow> booking \<Rightarrow> bool" where
  "validateDocument now d =
     (checkIn_validator now (checkIn d)
      \<and> checkOut_validator (Some (checkIn d)) (checkOut d)
      \<and> adults_validator (adults d)
      \<and> children_validator (children d)
      \<and> price_validator (price d))"

subsection \<open>The pre-save hook\<close>

text \<open>
  \<^verbatim>\<open>roomBookingSchema.pre('save')\<close> on a new document: every path is modified and
  \<^verbatim>\<open>isNew\<close> holds, so each block of the hook runs, in the order of the source. The
  hook recomputes the price, checks room, hotel, customer and owner, and checks
  availability with nothing excluded.
\<close>

definition preSave :: "db \<Rightarrow> booking \<Rightarrow> error + booking" where
  "preSave st d =
     (case findRoom (rooms st) (roomId d) of
        None \<Rightarrow> Inl (Thrown ''Room not found'')
      | Some room \<Rightarrow>
          let d1 = d\<lparr>price := js_mul (basePrice room)
                                  (of_int (nights (checkIn d) (checkOut d)))\<rparr> in
          if r_hotelId room \<noteq> hotelId d1
          then Inl (Thrown ''Room does not belong to the specified hotel'')
          else
            (case findHotel (hotels st) (hotelId d1) of
               None \<Rightarrow> Inl (Thrown ''Hotel does not belong to the specified owner'')
             | Some hotel \<Rightarrow>
                 if h_ownerId hotel \<noteq> ownerId d1
                 then Inl (Thrown ''Hotel does not belong to the specified owner'')
                 else
                   (case findUser (users st) (userId d1) of
                      None \<Rightarrow> Inl (Thrown ''User not found'')
                    | Some u \<Rightarrow>
                        if role u \<noteq> customer
                        then Inl (Thrown ''Only customers can make bookings'')
                        else
                          (case findUser (users st) (ownerId d1) of
                             None \<Rightarrow> Inl (Thrown ''Owner not found'')
                           | Some ow \<Rightarrow>
                               if role ow \<noteq> owner
                               then Inl (Thrown ''User must have owner role to receive bookings'')
                               else if length (checkRoomAvailability (bookings st) (roomId d1)
                                                 (checkIn d1) (checkOut d1) None) > 0
                               then Inl (Thrown ''Room is not available for the selected dates'')
                               else Inr d1))))"

subsection \<open>Persistence: create and findByIdAndUpdate\<close>

text \<open>The store assigns a new document an identifier that no document has.\<close>

definition newObjectId :: "booking list \<Rightarrow> objectId" where
  "newObjectId bs = Suc (fold max (map b_id bs) 0)"

text \<open>
  \<^verbatim>\<open>RoomBooking.create\<close>: the status takes its default \<^verbatim>\<open>'pending'\<close>, the document
  is validated, the pre-save hook runs, and the document is inserted.
\<close>

definition RoomBooking_create :: "date \<Rightarrow> db \<Rightarrow> booking \<Rightarrow> error + (db \<times> booking)" where
  "RoomBooking_create now st doc =
     (let d = doc\<lparr>b_id := newObjectId (bookings st), status := pending\<rparr> in
      if \<not> validateDocument now d then Inl (Thrown ''RoomBooking validation failed'')
      else (case preSave st d of
              Inl e \<Rightarrow> Inl e
            | Inr d' \<Rightarrow> Inr (st\<lparr>bookings := bookings st @ [d']\<rparr>, d')))"

text \<open>The update document of \<^verbatim>\<open>findByIdAndUpdate\<close>: the paths it sets.\<close>

record updateData =
  ud_checkIn :: "date option"
  ud_checkOut :: "date option"
  ud_roomId :: "objectId option"
  ud_hotelId :: "objectId option"
  ud_adults :: "int option"
  ud_children :: "int option"
  ud_price :: "number option"
  ud_status :: "booking_status option"

definition noUpdate :: updateData where
  "noUpdate = \<lparr>ud_checkIn = None, ud_checkOut = None, ud_roomId = None, ud_hotelId = None,
               ud_adults = None, ud_children = None, ud_price = None, ud_status = None\<rparr>"

definition applyUpdate :: "updateData \<Rightarrow> booking \<Rightarrow> booking" where
  "applyUpdate u b =
     b\<lparr>checkIn := (case ud_checkIn u of None \<Rightarrow> checkIn b | Some v \<Rightarrow> v),
       checkOut := (case ud_checkOut u of None \<Rightarrow> checkOut b | Some v \<Rightarrow> v),
       roomId := (case ud_roomId u of None \<Rightarrow> roomId b | Some v \<Rightarrow> v),
       hotelId := (case ud_hotelId u of None \<Rightarrow> hotelId b | Some v \<Rightarrow> v),
       adults := (case ud_adults u of None \<Rightarrow> adults b | Some v \<Rightarrow> v),
       children := (case ud_children u of None \<Rightarrow> children b | Some v \<Rightarrow> v),
       price := (case ud_price u of None \<Rightarrow> price b | Some v \<Rightarrow> v),
       status := (case ud_status u of None \<Rightarrow> status b | Some v \<Rightarrow> v)\<rparr>"

text \<open>
  \<^verbatim>\<open>runValidators: true\<close> runs the validators of the paths the update sets. The
  pre-save hook does not run on \<^verbatim>\<open>findByIdAndUpdate\<close>. What \<^verbatim>\<open>this.checkIn\<close> is
  inside the check-out validator during an update is a matter of the persistence
  library: it is the parameter \<open>this_checkIn\<close>. The library calls an update validator
  on the query, not on a document, and a query has no \<^verbatim>\<open>checkIn\<close>: the routes
  pass \<open>None\<close>.
\<close>

definition runValidators :: "date \<Rightarrow> date option \<Rightarrow> updateData \<Rightarrow> bool" where
  "runValidators now this_checkIn u =
     ((case ud_checkIn u of None \<Rightarrow> True | Some v \<Rightarrow> checkIn_validator now v)
      \<and> (case ud_checkOut u of None \<Rightarrow> True | Some v \<Rightarrow> checkOut_validator this_checkIn v)
      \<and> (case ud_adults u of None \<Rightarrow> True | Some v \<Rightarrow> adults_validator v)
      \<and> (case ud_children u of None \<Rightarrow> True | Some v \<Rightarrow> children_validator v)
      \<and> (case ud_price u of None \<Rightarrow> True | Some v \<Rightarrow> price_validator v))"

fun updateOne :: "objectId \<Rightarrow> (booking \<Rightarrow> booking) \<Rightarrow> booking list \<Rightarrow> booking list" where
  "updateOne i f [] = []"
| "updateOne i f (b # bs) = (if b_id b = i then f b # bs else b # updateOne i f bs)"

text \<open>
  \<^verbatim>\<open>findByIdAndUpdate(id, update, { new: true, runValidators: true })\<close>: a failed
  validator throws; otherwise the first document with the identifier is updated and
  returned (\<^verbatim>\<open>null\<close> when there is none).
\<close>

definition findByIdAndUpdate ::
  "date \<Rightarrow> date option \<Rightarrow> db \<Rightarrow> objectId \<Rightarrow> updateData \<Rightarrow> error + (db \<times> booking option)" where
  "findByIdAndUpdate now this_checkIn st i u =
     (if \<not> runValidators now this_checkIn u then Inl (Thrown ''Validation failed'')
      else Inr (st\<lparr>bookings := updateOne i (applyUpdate u) (bookings st)\<rparr>,
                map_option (applyUpdate u) (findBooking (bookings st) i)))"

section \<open>The booking controller\<close>

subsection \<open>Creating a booking\<close>

text \<open>The fields of the request body of \<^verbatim>\<open>POST /room-bookings\<close> that the model keeps.\<close>

record createBody =
  cb_checkIn :: date
  cb_checkOut :: date
  cb_adults :: int
  cb_children :: int
  cb_roomId :: objectId

text \<open>
  \<^verbatim>\<open>createRoomBooking\<close>: the room gives the hotel, the hotel (with its owner
  populated) gives the owner; the hotel must be visible and approved and the owner must
  have the owner role; the room must be free; the price is
  \<^verbatim>\<open>room.basePrice * nights\<close>; the booking is created with the identifiers found on
  the way.
\<close>

definition createRoomBooking ::
  "date \<Rightarrow> user \<Rightarrow> createBody \<Rightarrow> db \<Rightarrow> error + (db \<times> booking)" where
  "createRoomBooking now currentUser body st =
     (case findRoom (rooms st) (cb_roomId body) of
        None \<Rightarrow> Inl (AppError ''Room not found'' 404)
      | Some room \<Rightarrow>
          (case findHotel (hotels st) (r_hotelId room) of
             None \<Rightarrow> Inl (AppError ''Hotel not found'' 404)
           | Some hotel \<Rightarrow>
               if \<not> isVisible hotel \<or> h_status hotel \<noteq> approved
               then Inl (AppError ''Hotel is not available for booking'' 400)
               else
                 (case findUser (users st) (h_ownerId hotel) of
                    None \<Rightarrow> Inl (AppError ''Hotel owner not found'' 400)
                  | Some ow \<Rightarrow>
                      if role ow \<noteq> owner
                      then Inl (AppError ''Hotel owner does not have owner role'' 400)
                      else if length (checkRoomAvailability (bookings st) (cb_roomId body)
                                        (cb_checkIn body) (cb_checkOut body) None) > 0
                      then Inl (AppError ''Room is not available for the selected dates'' 400)
                      else
                        RoomBooking_create now st
                          \<lparr>b_id = 0,
                           userId = u_id currentUser,
                           ownerId = u_id ow,
                           roomId = cb_roomId body,
                           hotelId = r_hotelId room,
                           checkIn = cb_checkIn body,
                           checkOut = cb_checkOut body,
                           adults = cb_adults body,
                           children = cb_children body,
                           price = js_mul (basePrice room)
                                     (of_int (nights (cb_checkIn body) (cb_checkOut body))),
                           status = pending\<rparr>)))"

subsection \<open>Reading a booking\<close>

text \<open>
  \<^verbatim>\<open>getBookingById\<close> finds the booking with \<^verbatim>\<open>userId\<close> and \<^verbatim>\<open>ownerId\<close>
  populated, and then evaluates \<^verbatim>\<open>isOwnedByUser(...) || isOwnedByHotelOwner(...) ||
  role === 'super_admin'\<close> from left to right on the populated document.
\<close>

definition getBookingById :: "user \<Rightarrow> objectId \<Rightarrow> db \<Rightarrow> error + booking" where
  "getBookingById currentUser i st =
     (case findBooking (bookings st) i of
        None \<Rightarrow> Inl (AppError ''Booking not found'' 404)
      | Some b \<Rightarrow>
          let this_userId = populate (users st) (userId b);
              this_ownerId = populate (users st) (ownerId b)
          in
          (case isOwnedByUser this_userId (u_id currentUser) of
             Inl e \<Rightarrow> Inl e
           | Inr ownedByUser \<Rightarrow>
               if ownedByUser then Inr b
               else
                 (case isOwnedByHotelOwner this_ownerId (u_id currentUser) of
                    Inl e \<Rightarrow> Inl e
                  | Inr ownedByHotelOwner \<Rightarrow>
                      let canView = (ownedByHotelOwner \<or> role currentUser = super_admin) in
                      if \<not> canView
                      then Inl (AppError ''You do not have permission to view this booking'' 403)
                      else Inr b)))"

subsection \<open>Updating a booking\<close>

text \<open>
  The request body of \<^verbatim>\<open>PUT /room-bookings/:id\<close>. The controller takes
  \<^verbatim>\<open>status\<close>, \<^verbatim>\<open>price\<close>, \<^verbatim>\<open>userId\<close> and \<^verbatim>\<open>ownerId\<close> out of it; the
  rest is the update document.
\<close>

record updateBody =
  ub_status :: "string option"
  ub_price :: "real option"
  ub_userId :: "objectId option"
  ub_ownerId :: "objectId option"
  ub_checkIn :: "date option"
  ub_checkOut :: "date option"
  ub_roomId :: "objectId option"
  ub_hotelId :: "objectId option"
  ub_adults :: "int option"
  ub_children :: "int option"

definition restOfBody :: "updateBody \<Rightarrow> updateData" where
  "restOfBody body =
     \<lparr>ud_checkIn = ub_checkIn body, ud_checkOut = ub_checkOut body,
      ud_roomId = ub_roomId body, ud_hotelId = ub_hotelId body,
      ud_adults = ub_adults body, ud_children = ub_children body,
      ud_price = None, ud_status = None\<rparr>"

text \<open>
  \<^verbatim>\<open>updateBooking\<close>. A date of the body is a non-empty string and a room identifier
  is 24 hexadecimal digits, so a field that is present is truthy. When the room of the
  update does not exist, \<^verbatim>\<open>room.basePrice\<close> throws a \<^verbatim>\<open>TypeError\<close>.
\<close>

definition updateBooking ::
  "date \<Rightarrow> date option \<Rightarrow> user \<Rightarrow> objectId \<Rightarrow> updateBody \<Rightarrow> db
     \<Rightarrow> error + (db \<times> booking option)" where
  "updateBooking now this_checkIn currentUser i body st =
     (case findBooking (bookings st) i of
        None \<Rightarrow> Inl (AppError ''Booking not found'' 404)
      | Some b \<Rightarrow>
          (case isOwnedByUser (Ref (userId b)) (u_id currentUser) of
             Inl e \<Rightarrow> Inl e
           | Inr ownedByUser \<Rightarrow>
               if \<not> ownedByUser
               then Inl (AppError ''You can only update your own bookings'' 403)
               else if \<not> canBeModified now b
               then Inl (AppError ''This booking cannot be modified. Check-in is too soon or booking is not in pending status'' 400)
               else
                 let updateData = restOfBody body in
                 if ud_checkIn updateData \<noteq> None \<or> ud_checkOut updateData \<noteq> None
                    \<or> ud_roomId updateData \<noteq> None
                 then
                   let checkInDate =
                         (case ud_checkIn updateData of Some v \<Rightarrow> v | None \<Rightarrow> checkIn b);
                       checkOutDate =
                         (case ud_checkOut updateData of Some v \<Rightarrow> v | None \<Rightarrow> checkOut b);
                       rid = (case ud_roomId updateData of Some v \<Rightarrow> v | None \<Rightarrow> roomId b)
                   in
                   if length (checkRoomAvailability (bookings st) rid checkInDate checkOutDate
                                (Some i)) > 0
                   then Inl (AppError ''Room is not available for the selected dates'' 400)
                   else
                     (case findRoom (rooms st) rid of
                        None \<Rightarrow> Inl (Thrown ''TypeError'')
                      | Some room \<Rightarrow>
                          findByIdAndUpdate now this_checkIn st i
                            (updateData\<lparr>ud_price :=
                               Some (js_mul (basePrice room)
                                       (of_int (nights checkInDate checkOutDate)))\<rparr>))
                 else findByIdAndUpdate now this_checkIn st i updateData))"

subsection \<open>Cancelling a booking\<close>

text \<open>
  The update of \<^verbatim>\<open>cancelBooking\<close> and of \<^verbatim>\<open>updateBookingStatus\<close> sets the status
  only, so the check-out validator does not run and \<^verbatim>\<open>this.checkIn\<close> is not read.
\<close>

definition cancelBooking ::
  "date \<Rightarrow> user \<Rightarrow> objectId \<Rightarrow> db \<Rightarrow> error + (db \<times> booking option)" where
  "cancelBooking now currentUser i st =
     (case findBooking (bookings st) i of
        None \<Rightarrow> Inl (AppError ''Booking not found'' 404)
      | Some b \<Rightarrow>
          (case isOwnedByUser (Ref (userId b)) (u_id currentUser) of
             Inl e \<Rightarrow> Inl e
           | Inr ownedByUser \<Rightarrow>
               if \<not> ownedByUser
               then Inl (AppError ''You can only cancel your own bookings'' 403)
               else if \<not> canBeCancelled now b
               then Inl (AppError ''This booking cannot be cancelled. Check-in is too soon''
                          400)
               else findByIdAndUpdate now None st i
                      (noUpdate\<lparr>ud_status := Some cancelled\<rparr>)))"

subsection \<open>Setting the status of a booking\<close>

fun status_of_string :: "string \<Rightarrow> booking_status option" where
  "status_of_string s =
     (if s = ''pending'' then Some pending
      else if s = ''confirmed'' then Some confirmed
      else if s = ''cancelled'' then Some cancelled
      else if s = ''rejected'' then Some rejected
      else None)"

definition updateBookingStatus ::
  "date \<Rightarrow> user \<Rightarrow> objectId \<Rightarrow> string \<Rightarrow> db \<Rightarrow> error + (db \<times> booking option)" where
  "updateBookingStatus now currentUser i st_str st =
     (case findBooking (bookings st) i of
        None \<Rightarrow> Inl (AppError ''Booking not found'' 404)
      | Some b \<Rightarrow>
          (case isOwnedByHotelOwner (Ref (ownerId b)) (u_id currentUser) of
             Inl e \<Rightarrow> Inl e
           | Inr ownedByHotelOwner \<Rightarrow>
               let canUpdateStatus = (ownedByHotelOwner \<or> role currentUser = super_admin) in
               if \<not> canUpdateStatus
               then Inl (AppError ''You can only update bookings for your hotels'' 403)
               else
                 (case status_of_string st_str of
                    None \<Rightarrow> Inl (AppError ''Invalid status. Must be one of: pending, confirmed, cancelled, rejected'' 400)
                  | Some s \<Rightarrow>
                      findByIdAndUpdate now None st i (noUpdate\<lparr>ud_status := Some s\<rparr>))))"

subsection \<open>Listing the bookings of a city\<close>

text \<open>
  The query of \<^verbatim>\<open>GET /room-bookings/cityadmin/all\<close>. The search is a regular
  expression over the free-text fields: \<open>q_search\<close> is the set of documents it matches,
  when a search is given. \<open>q_sortKey\<close> is the value of the field named by
  \<^verbatim>\<open>sortBy\<close>.
\<close>

record listQuery =
  q_page :: int
  q_pageSize :: int
  q_status :: "string option"
  q_search :: "(booking \<Rightarrow> bool) option"
  q_sortKey :: "booking \<Rightarrow> int"
  q_sortDir :: string

definition statusFilter :: "string option \<Rightarrow> booking \<Rightarrow> bool" where
  "statusFilter s b =
     (case s of
        None \<Rightarrow> True
      | Some v \<Rightarrow> if v = [] \<or> v = ''all'' then True else status_of_string v = Some (status b))"

definition searchFilter :: "(booking \<Rightarrow> bool) option \<Rightarrow> booking \<Rightarrow> bool" where
  "searchFilter s b = (case s of None \<Rightarrow> True | Some m \<Rightarrow> m b)"

definition sortBookings :: "(booking \<Rightarrow> int) \<Rightarrow> string \<Rightarrow> booking list \<Rightarrow> booking list" where
  "sortBookings k dir bs = (if dir = ''desc'' then rev (sort_key k bs) else sort_key k bs)"

text \<open>The store takes no limit for \<open>0\<close> and the absolute value of a negative limit.\<close>

definition limitDocs :: "int \<Rightarrow> booking list \<Rightarrow> booking list" where
  "limitDocs l bs = (if l = 0 then bs else take (nat \<bar>l\<bar>) bs)"

text \<open>
  \<^verbatim>\<open>getCityAdminBookings\<close>: a city admin without a city is refused; the hotels of the
  principal's city are found first, and the bookings are those whose \<^verbatim>\<open>hotelId\<close> is
  among them, filtered, sorted, skipped and limited. The store refuses a negative skip.
\<close>

definition getCityAdminBookings :: "user \<Rightarrow> listQuery \<Rightarrow> db \<Rightarrow> error + booking list" where
  "getCityAdminBookings currentUser q st =
     (if role currentUser = city_admin \<and> u_cityId currentUser = None
      then Inl (AppError ''City admin must have an assigned city'' 403)
      else
        let cityHotels = filter (\<lambda>h. Some (h_cityId h) = u_cityId currentUser) (hotels st);
            hotelIds = map h_id cityHotels;
            found = filter (\<lambda>b. hotelId b \<in> set hotelIds
                                 \<and> statusFilter (q_status q) b
                                 \<and> searchFilter (q_search q) b) (bookings st);
            skip = (q_page q - 1) * q_pageSize q;
            limit = q_pageSize q
        in
        if skip < 0 then Inl (Thrown ''Skip value must be non-negative'')
        else Inr (limitDocs limit (drop (nat skip) (sortBookings (q_sortKey q) (q_sortDir q) found))))"

section \<open>Routes and request validation\<close>

text \<open>\<^verbatim>\<open>requireRole(...roles)\<close> of the authentication middleware.\<close>

definition requireRole :: "role list \<Rightarrow> user \<Rightarrow> error option" where
  "requireRole roles u =
     (if role u \<notin> set roles
      then Some (AppError ''You do not have permission to perform this action.'' 403)
      else None)"

text \<open>
  \<^verbatim>\<open>createRoomBookingSchema\<close>, on the fields the model keeps and in the order of the
  schema's keys; the result is the first offending field. The free-text fields of the
  request are taken to be valid.
\<close>

definition createRoomBookingSchema :: "date \<Rightarrow> createBody \<Rightarrow> string option" where
  "createRoomBookingSchema now body =
     (if \<not> cb_checkIn body > now then Some ''checkIn''
      else if \<not> cb_checkOut body > cb_checkIn body then Some ''checkOut''
      else if \<not> (1 \<le> cb_adults body \<and> cb_adults body \<le> 20) then Some ''adults''
      else if \<not> (0 \<le> cb_children body \<and> cb_children body \<le> 10) then Some ''children''
      else None)"

definition validateCreateRoomBooking :: "date \<Rightarrow> createBody \<Rightarrow> error option" where
  "validateCreateRoomBooking now body =
     (case createRoomBookingSchema now body of
        Some field \<Rightarrow> Some (JoiValidation field)
      | None \<Rightarrow> None)"

text \<open>
  \<^verbatim>\<open>router.post('/', requireRole('customer'), validateCreateRoomBooking,
  createRoomBooking)\<close>.
\<close>

definition postRoomBooking ::
  "date \<Rightarrow> user \<Rightarrow> createBody \<Rightarrow> db \<Rightarrow> error + (db \<times> booking)" where
  "postRoomBooking now currentUser body st =
     (case requireRole [customer] currentUser of
        Some e \<Rightarrow> Inl e
      | None \<Rightarrow>
          (case validateCreateRoomBooking now body of
             Some e \<Rightarrow> Inl e
           | None \<Rightarrow> createRoomBooking now currentUser body st))"

text \<open>
  \<^verbatim>\<open>updateRoomBookingSchema\<close>: every key is optional. The keys of the schema are
  validated in the order of the schema, and the result is the first offending field. A
  \<^verbatim>\<open>checkOut\<close> must be greater than the \<^verbatim>\<open>checkIn\<close> of the same body; when the
  body has no \<^verbatim>\<open>checkIn\<close> the reference has no date to resolve to, which is an
  error on \<^verbatim>\<open>checkOut\<close>. The schema does not list \<^verbatim>\<open>status\<close>, \<^verbatim>\<open>price\<close>,
  \<^verbatim>\<open>userId\<close> and \<^verbatim>\<open>ownerId\<close>, and a key that a schema does not list is
  refused, after the listed keys have been validated. Of several such keys the first
  of the body is reported; the body being a record here, they are taken in the order
  in which the controller names them. The free-text fields are taken to be valid.
\<close>

definition updateRoomBookingSchema :: "date \<Rightarrow> updateBody \<Rightarrow> string option" where
  "updateRoomBookingSchema now body =
     (if (case ub_checkIn body of None \<Rightarrow> False | Some v \<Rightarrow> \<not> v > now)
      then Some ''checkIn''
      else if (case ub_checkOut body of
                 None \<Rightarrow> False
               | Some v \<Rightarrow> (case ub_checkIn body of None \<Rightarrow> True | Some c \<Rightarrow> \<not> v > c))
      then Some ''checkOut''
      else if (case ub_adults body of None \<Rightarrow> False | Some v \<Rightarrow> \<not> (1 \<le> v \<and> v \<le> 20))
      then Some ''adults''
      else if (case ub_children body of None \<Rightarrow> False | Some v \<Rightarrow> \<not> (0 \<le> v \<and> v \<le> 10))
      then Some ''children''
      else if ub_status body \<noteq> None then Some ''status''
      else if ub_price body \<noteq> None then Some ''price''
      else if ub_userId body \<noteq> None then Some ''userId''
      else if ub_ownerId body \<noteq> None then Some ''ownerId''
      else None)"

definition validateUpdateRoomBooking :: "date \<Rightarrow> updateBody \<Rightarrow> error option" where
  "validateUpdateRoomBooking now body =
     (case updateRoomBookingSchema now body of
        Some field \<Rightarrow> Some (JoiValidation field)
      | None \<Rightarrow> None)"

text \<open>
  \<^verbatim>\<open>router.put('/:id', requireRole('customer'), validateUpdateRoomBooking,
  updateBooking)\<close>.
\<close>

definition putRoomBooking ::
  "date \<Rightarrow> user \<Rightarrow> objectId \<Rightarrow> updateBody \<Rightarrow> db \<Rightarrow> error + (db \<times> booking option)" where
  "putRoomBooking now currentUser i body st =
     (case requireRole [customer] currentUser of
        Some e \<Rightarrow> Inl e
      | None \<Rightarrow>
          (case validateUpdateRoomBooking now body of
             Some e \<Rightarrow> Inl e
           | None \<Rightarrow> updateBooking now None currentUser i body st))"

text \<open>
  \<^verbatim>\<open>router.delete('/:id', requireRole('customer'), cancelBooking)\<close>.
\<close>

definition deleteRoomBooking ::
  "date \<Rightarrow> user \<Rightarrow> objectId \<Rightarrow> db \<Rightarrow> error + (db \<times> booking option)" where
  "deleteRoomBooking now currentUser i st =
     (case requireRole [customer] currentUser of
        Some e \<Rightarrow> Inl e
      | None \<Rightarrow> cancelBooking now currentUser i st)"

text \<open>
  \<^verbatim>\<open>updateBookingStatusSchema\<close> accepts the four status names, and
  \<^verbatim>\<open>router.patch('/:id/status', requireRole('owner', 'super_admin'),
  validateUpdateBookingStatus, updateBookingStatus)\<close>.
\<close>

definition validateUpdateBookingStatus :: "string \<Rightarrow> error option" where
  "validateUpdateBookingStatus s =
     (if s \<notin> {''pending'', ''confirmed'', ''cancelled'', ''rejected''}
      then Some (JoiValidation ''status'')
      else None)"

definition patchBookingStatus ::
  "date \<Rightarrow> user \<Rightarrow> objectId \<Rightarrow> string \<Rightarrow> db \<Rightarrow> error + (db \<times> booking option)" where
  "patchBookingStatus now currentUser i s st =
     (case requireRole [owner, super_admin] currentUser of
        Some e \<Rightarrow> Inl e
      | None \<Rightarrow>
          (case validateUpdateBookingStatus s of
             Some e \<Rightarrow> Inl e
           | None \<Rightarrow> updateBookingStatus now currentUser i s st))"

section \<open>The consistency invariant\<close>

text \<open>
  Two bookings clash when they are for the same room, both are pending or confirmed, and
  their half-open ranges overlap. A collection is free of double bookings when no two of
  its documents clash.
\<close>

definition active :: "booking \<Rightarrow> bool" where
  "active b = (status b = pending \<or> status b = confirmed)"

definition clash :: "booking \<Rightarrow> booking \<Rightarrow> bool" where
  "clash b c = (roomId b = roomId c \<and> active b \<and> active c
                \<and> checkIn b < checkOut c \<and> checkIn c < checkOut b)"

definition noDoubleBooking :: "booking list \<Rightarrow> bool" where
  "noDoubleBooking bs = sorted_wrt (\<lambda>b c. \<not> clash b c) bs"

section \<open>Sample data\<close>

text \<open>
  A store with two hotels in two cities, a room in each, and the principals of every
  role. Dates are milliseconds since the epoch: \<open>1741564800000\<close> is 2025-03-10 and
  \<open>1741910400000\<close> is 2025-03-14, both at 00:00 UTC.
\<close>

definition root_admin :: user where
  "root_admin = \<lparr>u_id = 1, role = super_admin, u_cityId = None\<rparr>"

definition alice :: user where
  "alice = \<lparr>u_id = 7, role = customer, u_cityId = None\<rparr>"

definition bob :: user where
  "bob = \<lparr>u_id = 9, role = customer, u_cityId = None\<rparr>"

definition olga :: user where
  "olga = \<lparr>u_id = 8, role = owner, u_cityId = None\<rparr>"

definition oscar :: user where
  "oscar = \<lparr>u_id = 11, role = owner, u_cityId = None\<rparr>"

definition carl :: user where
  "carl = \<lparr>u_id = 12, role = city_admin, u_cityId = Some 40\<rparr>"

definition cara :: user where
  "cara = \<lparr>u_id = 13, role = city_admin, u_cityId = None\<rparr>"

definition hotel5 :: hotel where
  "hotel5 = \<lparr>h_id = 5, h_ownerId = 8, h_cityId = 40, h_status = approved, isVisible = True\<rparr>"

definition hotel6 :: hotel where
  "hotel6 = \<lparr>h_id = 6, h_ownerId = 11, h_cityId = 41, h_status = approved, isVisible = True\<rparr>"

definition room3 :: room where
  "room3 = \<lparr>r_id = 3, r_hotelId = 5, basePrice = 100\<rparr>"

definition room4 :: room where
  "room4 = \<lparr>r_id = 4, r_hotelId = 6, basePrice = 250\<rparr>"

definition booking1 :: booking where
  "booking1 = \<lparr>b_id = 1, userId = 7, ownerId = 8, roomId = 3, hotelId = 5,
                checkIn = 1741564800000, checkOut = 1741910400000,
                adults = 2, children = 0, price = Finite 400, status = confirmed\<rparr>"

definition store0 :: db where
  "store0 = \<lparr>users = [root_admin, alice, bob, olga, oscar, carl, cara],
              hotels = [hotel5, hotel6], rooms = [room3, room4], bookings = []\<rparr>"

definition store1 :: db where
  "store1 = store0\<lparr>bookings := [booking1]\<rparr>"

text \<open>
  A second, pending booking of the same room, by another customer: 2025-03-20 to
  2025-03-22.
\<close>

definition booking2 :: booking where
  "booking2 = \<lparr>b_id = 2, userId = 9, ownerId = 8, roomId = 3, hotelId = 5,
                checkIn = 1742428800000, checkOut = 1742601600000,
                adults = 1, children = 1, price = Finite 200, status = pending\<rparr>"

definition store2 :: db where
  "store2 = store0\<lparr>bookings := [booking1, booking2]\<rparr>"

text \<open>
  A stay from 2025-01-01 to 2025-01-04 in the room whose base price is 100, and the empty
  update body.
\<close>

definition newYearStay :: createBody where
  "newYearStay = \<lparr>cb_checkIn = 1735689600000, cb_checkOut = 1735948800000,
                   cb_adults = 2, cb_children = 0, cb_roomId = 3\<rparr>"

definition noChange :: updateBody where
  "noChange = \<lparr>ub_status = None, ub_price = None, ub_userId = None, ub_ownerId = None,
               ub_checkIn = None, ub_checkOut = None, ub_roomId = None, ub_hotelId = None,
               ub_adults = None, ub_children = None\<rparr>"

text \<open>
  Two overlapping stays in the room of the first hotel (2025-03-10 to 2025-03-14 and
  2025-03-11 to 2025-03-13) with the bookings they create, a booking in the second hotel,
  and the first page of a listing.
\<close>

definition stayA :: createBody where
  "stayA = \<lparr>cb_checkIn = 1741564800000, cb_checkOut = 1741910400000,
             cb_adults = 2, cb_children = 0, cb_roomId = 3\<rparr>"

definition stayB :: createBody where
  "stayB = \<lparr>cb_checkIn = 1741651200000, cb_checkOut = 1741824000000,
             cb_adults = 1, cb_children = 0, cb_roomId = 3\<rparr>"

definition bookingA :: booking where
  "bookingA = \<lparr>b_id = 1, userId = 7, ownerId = 8, roomId = 3, hotelId = 5,
                checkIn = 1741564800000, checkOut = 1741910400000,
                adults = 2, children = 0, price = Finite 400, status = pending\<rparr>"

definition bookingB :: booking where
  "bookingB = \<lparr>b_id = 2, userId = 9, ownerId = 8, roomId = 3, hotelId = 5,
                checkIn = 1741651200000, checkOut = 1741824000000,
                adults = 1, children = 0, price = Finite 200, status = pending\<rparr>"

definition booking3 :: booking where
  "booking3 = \<lparr>b_id = 3, userId = 9, ownerId = 11, roomId = 4, hotelId = 6,
                checkIn = 1741564800000, checkOut = 1741910400000,
                adults = 1, children = 0, price = Finite 1000, status = confirmed\<rparr>"

definition store3 :: db where
  "store3 = store0\<lparr>bookings := [booking1, booking3]\<rparr>"




definition firstPage :: listQuery where
  "firstPage = \<lparr>q_page = 1, q_pageSize = 20, q_status = None, q_search = None,
                q_sortKey = (\<lambda>b. int (b_id b)), q_sortDir = ''desc''\<rparr>"

lemmas route_defs = postRoomBooking_def requireRole_def validateCreateRoomBooking_def
  createRoomBookingSchema_def deleteRoomBooking_def validateUpdateBookingStatus_def
  patchBookingStatus_def putRoomBooking_def validateUpdateRoomBooking_def
  updateRoomBookingSchema_def

lemmas sample_defs = store0_def store1_def store2_def booking1_def booking2_def
  root_admin_def alice_def bob_def olga_def oscar_def carl_def cara_def
  hotel5_def hotel6_def room3_def room4_def newYearStay_def noChange_def

lemmas model_defs = createRoomBooking_def RoomBooking_create_def preSave_def
  validateDocument_def checkIn_validator_def checkOut_validator_def adults_validator_def
  children_validator_def price_validator_def findRoom_def findHotel_def findUser_def
  findBooking_def checkRoomAvailability_def nights_def newObjectId_def
  updateBooking_def isOwnedByUser_def isOwnedByHotelOwner_def populate_def canBeModified_def
  canBeCancelled_def hoursUntilCheckIn_def restOfBody_def findByIdAndUpdate_def
  runValidators_def applyUpdate_def noUpdate_def cancelBooking_def updateBookingStatus_def
  Let_def

section \<open>Facts about numbers\<close>

declare lg.simps [simp del]

lemma lg_bounds: "0 < n \<Longrightarrow> 2 ^ lg n \<le> n \<and> n < 2 ^ Suc (lg n)"
proof (induction n rule: lg.induct)
  case (1 n)
  show ?case
  proof (cases "n < 2")
    case True
    with "1.prems" have "n = 1" by simp
    then show ?thesis by (simp add: lg.simps)
  next
    case False
    then have "0 < n div 2" by simp
    from "1.IH" [OF False this]
    have lo: "2 ^ lg (n div 2) \<le> n div 2" and hi: "n div 2 < 2 ^ Suc (lg (n div 2))"
      by simp_all
    have l: "lg n = Suc (lg (n div 2))" using False by (simp add: lg.simps)
    from lo have "2 * 2 ^ lg (n div 2) \<le> n" by linarith
    moreover from hi have "n < 2 * 2 ^ Suc (lg (n div 2))" by linarith
    ultimately show ?thesis by (simp add: l)
  qed
qed

text \<open>The binade of a number is its binary exponent.\<close>

lemma binade_bounds:
  assumes "x \<noteq> 0"
  shows "2 powi binade x \<le> \<bar>x\<bar> \<and> \<bar>x\<bar> < 2 powi (binade x + 1)"
proof (cases "1 \<le> \<bar>x\<bar>")
  case True
  define n where "n = nat \<lfloor>\<bar>x\<bar>\<rfloor>"
  have n0: "0 < n" using True by (simp add: n_def)
  have "0 \<le> \<lfloor>\<bar>x\<bar>\<rfloor>" by simp
  then have rn: "real n = of_int \<lfloor>\<bar>x\<bar>\<rfloor>" by (simp add: n_def)
  have nx: "real n \<le> \<bar>x\<bar>" "\<bar>x\<bar> < real n + 1"
    unfolding rn by linarith+
  from lg_bounds [OF n0] have "2 ^ lg n \<le> n" and "Suc n \<le> 2 ^ Suc (lg n)"
    by simp_all
  then have a1: "(2::real) ^ lg n \<le> real n" and a2: "real (Suc n) \<le> (2::real) ^ Suc (lg n)"
    by (metis of_nat_le_iff of_nat_numeral of_nat_power)+
  from a2 have a3: "real n + 1 \<le> (2::real) ^ Suc (lg n)"
    by (simp only: of_nat_Suc)
  from nx a1 a3 have "2 ^ lg n \<le> \<bar>x\<bar>" "\<bar>x\<bar> < 2 ^ Suc (lg n)"
    by linarith+
  moreover have "binade x = int (lg n)" using True by (simp add: binade_def n_def)
  ultimately show ?thesis
    by (simp add: power_int_def nat_add_distrib)
next
  case False
  define y where "y = 1 / \<bar>x\<bar>"
  have xpos: "0 < \<bar>x\<bar>" using assms by simp
  have y1: "1 < y" using False xpos by (simp add: y_def)
  define c where "c = nat \<lceil>y\<rceil>"
  have c2: "2 \<le> c" using y1 by (simp add: c_def) linarith
  have "0 \<le> \<lceil>y\<rceil>" using y1 by simp
  then have rc: "real c = of_int \<lceil>y\<rceil>" by (simp add: c_def)
  have cy: "real c - 1 < y" "y \<le> real c"
    unfolding rc by linarith+
  define k where "k = Suc (lg (c - 1))"
  have c0: "0 < c - 1" using c2 by simp
  from lg_bounds [OF c0] have lo: "2 ^ lg (c - 1) \<le> c - 1" and hi: "c - 1 < 2 ^ k"
    by (simp_all add: k_def)
  from hi have "c \<le> 2 ^ k" by simp
  then have "real c \<le> 2 ^ k" by (metis of_nat_le_iff of_nat_numeral of_nat_power)
  with cy have yk: "y \<le> 2 ^ k" by linarith
  from lo have "(2::real) ^ lg (c - 1) \<le> real (c - 1)"
    by (metis of_nat_le_iff of_nat_numeral of_nat_power)
  moreover have "real (c - 1) = real c - 1" using c2 by (simp add: of_nat_diff)
  ultimately have "2 ^ lg (c - 1) \<le> real c - 1" by simp
  with cy have yk': "2 ^ lg (c - 1) < y" by linarith
  have b: "binade x = - int k" using False by (simp add: binade_def k_def c_def y_def)
  have x_eq: "\<bar>x\<bar> = 1 / y" using xpos by (simp add: y_def)
  have p1: "(2::real) powi (- int k) = 1 / 2 ^ k"
    by (simp add: power_int_def field_simps)
  have p2: "(2::real) powi (- int k + 1) = 1 / 2 ^ lg (c - 1)"
    by (simp add: power_int_def k_def field_simps)
  have "1 / 2 ^ k \<le> 1 / y"
    using yk y1 by (simp add: field_simps)
  moreover have "1 / y < 1 / 2 ^ lg (c - 1)"
    using yk' y1 by (simp add: field_simps)
  ultimately show ?thesis
    unfolding b p1 p2 x_eq by simp
qed

lemma binade_floor_log: "x \<noteq> 0 \<Longrightarrow> binade x = \<lfloor>log 2 \<bar>x\<bar>\<rfloor>"
proof -
  assume x: "x \<noteq> 0"
  have p1: "(2::real) powr (of_int (binade x)) = 2 powi binade x"
    by (simp add: powr_real_of_int')
  have p2: "(2::real) powr (of_int (binade x) + 1) = 2 powi (binade x + 1)"
    using powr_real_of_int' [of "2::real" "binade x + 1"] by simp
  have "2 powr (of_int (binade x)) \<le> \<bar>x\<bar> \<and> \<bar>x\<bar> < 2 powr (of_int (binade x) + 1)"
    unfolding p1 p2 by (rule binade_bounds [OF x])
  then show ?thesis
    using x floor_log_eq_powr_iff [of "\<bar>x\<bar>" 2 "binade x"] by simp
qed




lemma round_even_of_int [simp]: "round_even (of_int m) = m"
  by (simp add: round_even_def)

lemma powi_nonpos:
  assumes "k \<le> 0"
  shows "(2::real) powi k = 1 / 2 ^ nat (- k)"
  using assms by (cases "k = 0") (simp_all add: power_int_def field_simps)

text \<open>An integer below \<^verbatim>\<open>2^53\<close> in magnitude is a double: rounding leaves it.\<close>

lemma round_double_int_exact:
  assumes "x \<in> \<int>" and "\<bar>x\<bar> < 2 ^ 53"
  shows "round_double x = Finite x"
proof (cases "x = 0")
  case True
  then show ?thesis by (simp add: round_double_def)
next
  case False
  from assms(1) obtain n :: int where n: "x = of_int n" by (auto elim: Ints_cases)
  with False have n1: "1 \<le> \<bar>x\<bar>" by simp
  define e where "e = binade x"
  have e_log: "e = \<lfloor>log 2 \<bar>x\<bar>\<rfloor>" unfolding e_def by (rule binade_floor_log [OF False])
  have e0: "0 \<le> e" using n1 by (simp add: e_log)
  have "log 2 \<bar>x\<bar> < 53"
    using assms(2) n1 by (simp add: log_less_iff powr_numeral)
  then have e52: "e \<le> 52" by (simp add: e_log floor_le_iff)
  have "ulp_of x = 2 powi (e - 52)"
    using e0 by (simp add: ulp_of_def e_def)
  also have "\<dots> = 1 / 2 ^ nat (52 - e)"
    using powi_nonpos [of "e - 52"] e52 by simp
  finally have u: "ulp_of x = 1 / 2 ^ nat (52 - e)" .
  have inv: "x / ulp_of x = of_int (n * 2 ^ nat (52 - e))"
    unfolding u by (simp add: n)
  have undo: "of_int (n * 2 ^ nat (52 - e)) * ulp_of x = x"
    unfolding u by (simp add: n)
  have small: "\<not> 2 ^ 1024 \<le> \<bar>x\<bar>"
  proof -
    have "(2::real) ^ 53 \<le> 2 ^ 1024" by (rule power_increasing) simp_all
    with assms(2) show ?thesis by linarith
  qed
  show ?thesis
    unfolding round_double_def Let_def inv round_even_of_int undo
    using False small by simp
qed

lemma js_mul_exact:
  "x * y \<in> \<int> \<Longrightarrow> \<bar>x * y\<bar> < 2 ^ 53 \<Longrightarrow> js_mul x y = Finite (x * y)"
  by (simp add: js_mul_def round_double_int_exact)



section \<open>Facts about the persistence layer\<close>

lemma isOwnedByUser_Ref [simp]: "isOwnedByUser (Ref i) uid = Inr (i = uid)"
  by (simp add: isOwnedByUser_def)

lemma isOwnedByHotelOwner_Ref [simp]: "isOwnedByHotelOwner (Ref i) oid = Inr (i = oid)"
  by (simp add: isOwnedByHotelOwner_def)

lemma isOwnedByUser_Doc [simp]: "isOwnedByUser (Doc d) uid = Inr False"
  by (simp add: isOwnedByUser_def)

lemma isOwnedByHotelOwner_Doc [simp]: "isOwnedByHotelOwner (Doc d) oid = Inr False"
  by (simp add: isOwnedByHotelOwner_def)

lemma applyUpdate_b_id [simp]: "b_id (applyUpdate u b) = b_id b"
  by (simp add: applyUpdate_def)

lemma applyUpdate_userId [simp]: "userId (applyUpdate u b) = userId b"
  by (simp add: applyUpdate_def)

lemma applyUpdate_ownerId [simp]: "ownerId (applyUpdate u b) = ownerId b"
  by (simp add: applyUpdate_def)

lemma applyUpdate_status_only:
  "applyUpdate (noUpdate\<lparr>ud_status := Some s\<rparr>) b = b\<lparr>status := s\<rparr>"
  by (simp add: applyUpdate_def noUpdate_def)

lemma runValidators_status_only [simp]:
  "runValidators now t (noUpdate\<lparr>ud_status := Some s\<rparr>)"
  by (simp add: runValidators_def noUpdate_def)

lemma findBooking_updateOne:
  assumes "\<And>b. b_id (f b) = b_id b"
  shows "findBooking (updateOne i f bs) j =
           (if j = i then map_option f (findBooking bs i) else findBooking bs j)"
  using assms by (induction bs) (auto simp: findBooking_def)

lemma findBooking_Some_id: "findBooking bs i = Some b \<Longrightarrow> b_id b = i \<and> b \<in> set bs"
  by (auto simp: findBooking_def find_Some_iff)

lemma applyUpdate_fields:
  "checkIn (applyUpdate u b) = (case ud_checkIn u of None \<Rightarrow> checkIn b | Some v \<Rightarrow> v)"
  "checkOut (applyUpdate u b) = (case ud_checkOut u of None \<Rightarrow> checkOut b | Some v \<Rightarrow> v)"
  "roomId (applyUpdate u b) = (case ud_roomId u of None \<Rightarrow> roomId b | Some v \<Rightarrow> v)"
  "hotelId (applyUpdate u b) = (case ud_hotelId u of None \<Rightarrow> hotelId b | Some v \<Rightarrow> v)"
  "price (applyUpdate u b) = (case ud_price u of None \<Rightarrow> price b | Some v \<Rightarrow> v)"
  "status (applyUpdate u b) = (case ud_status u of None \<Rightarrow> status b | Some v \<Rightarrow> v)"
  by (simp_all add: applyUpdate_def)

lemma findByIdAndUpdate_result:
  assumes "findByIdAndUpdate now t st i ud = Inr (st', r)"
    and "findBooking (bookings st) i = Some b"
  shows "r = Some (applyUpdate ud b)"
    and "bookings st' = updateOne i (applyUpdate ud) (bookings st)"
    and "findBooking (bookings st') i = Some (applyUpdate ud b)"
    and "users st' = users st" and "hotels st' = hotels st" and "rooms st' = rooms st"
    and "runValidators now t ud"
  using assms
  by (auto simp: findByIdAndUpdate_def findBooking_updateOne split: if_splits)

lemma updateBooking_guard:
  assumes "updateBooking now t u i body st = Inr (st', r)"
  shows "\<exists>b. findBooking (bookings st) i = Some b \<and> userId b = u_id u \<and> status b = pending
           \<and> real_of_int (checkIn b - now) / (1000 * 60 * 60) > 48"
  using assms
  by (simp add: updateBooking_def canBeModified_def hoursUntilCheckIn_def
        split: option.splits if_splits)

lemma updateBooking_unchanged_dates:
  assumes "updateBooking now t u i body st = Inr (st', r)"
    and "findBooking (bookings st) i = Some b"
    and "ub_checkIn body = None" and "ub_checkOut body = None" and "ub_roomId body = None"
  shows "findByIdAndUpdate now t st i (restOfBody body) = Inr (st', r)"
  using assms
  by (simp add: updateBooking_def restOfBody_def split: if_splits)

lemma updateBooking_changed_unfold:
  assumes "findBooking (bookings st) i = Some b"
    and "userId b = u_id u" and "canBeModified now b"
    and "ub_checkIn body \<noteq> None \<or> ub_checkOut body \<noteq> None \<or> ub_roomId body \<noteq> None"
    and "ci = (case ub_checkIn body of Some v \<Rightarrow> v | None \<Rightarrow> checkIn b)"
    and "co = (case ub_checkOut body of Some v \<Rightarrow> v | None \<Rightarrow> checkOut b)"
    and "rid = (case ub_roomId body of Some v \<Rightarrow> v | None \<Rightarrow> roomId b)"
  shows "updateBooking now t u i body st =
           (if length (checkRoomAvailability (bookings st) rid ci co (Some i)) > 0
            then Inl (AppError ''Room is not available for the selected dates'' 400)
            else (case findRoom (rooms st) rid of
                    None \<Rightarrow> Inl (Thrown ''TypeError'')
                  | Some room \<Rightarrow>
                      findByIdAndUpdate now t st i
                        ((restOfBody body)\<lparr>ud_price :=
                           Some (js_mul (basePrice room) (of_int (nights ci co)))\<rparr>)))"
proof -
  have sel: "ud_checkIn (restOfBody body) = ub_checkIn body"
    "ud_checkOut (restOfBody body) = ub_checkOut body"
    "ud_roomId (restOfBody body) = ub_roomId body"
    by (simp_all add: restOfBody_def)
  show ?thesis
    unfolding updateBooking_def Let_def sel assms(5,6,7)
    using assms(1-4) by simp
qed

lemma updateBooking_changed_dates:
  assumes "updateBooking now t u i body st = Inr (st', r)"
    and "findBooking (bookings st) i = Some b"
    and "ub_checkIn body \<noteq> None \<or> ub_checkOut body \<noteq> None \<or> ub_roomId body \<noteq> None"
    and "ci = (case ub_checkIn body of Some v \<Rightarrow> v | None \<Rightarrow> checkIn b)"
    and "co = (case ub_checkOut body of Some v \<Rightarrow> v | None \<Rightarrow> checkOut b)"
    and "rid = (case ub_roomId body of Some v \<Rightarrow> v | None \<Rightarrow> roomId b)"
  shows "\<exists>room.
           checkRoomAvailability (bookings st) rid ci co (Some i) = []
           \<and> findRoom (rooms st) rid = Some room
           \<and> findByIdAndUpdate now t st i
               ((restOfBody body)\<lparr>ud_price := Some (js_mul (basePrice room) (of_int (nights ci co)))\<rparr>)
               = Inr (st', r)"
proof -
  have guard: "userId b = u_id u" "canBeModified now b"
    using assms(1,2) by (simp_all add: updateBooking_def split: if_splits)
  show ?thesis
    using assms(1)
    unfolding updateBooking_changed_unfold [OF assms(2) guard assms(3-6)]
    by (simp split: if_splits option.splits)
qed

section \<open>Facts about the controller\<close>

lemma RoomBooking_create_result:
  assumes "RoomBooking_create now st doc = Inr (st', b)"
  shows "\<exists>room. findRoom (rooms st) (roomId doc) = Some room
           \<and> b = doc\<lparr>b_id := newObjectId (bookings st), status := pending,
                     price := js_mul (basePrice room)
                                (of_int (nights (checkIn doc) (checkOut doc)))\<rparr>
           \<and> bookings st' = bookings st @ [b]
           \<and> users st' = users st \<and> hotels st' = hotels st \<and> rooms st' = rooms st
           \<and> checkIn doc > now \<and> checkOut doc > checkIn doc
           \<and> checkRoomAvailability (bookings st) (roomId doc) (checkIn doc) (checkOut doc) None = []"
  using assms
  by (auto simp: RoomBooking_create_def preSave_def Let_def validateDocument_def
        checkIn_validator_def checkOut_validator_def
        split: if_splits option.splits sum.splits)

lemma createRoomBooking_result:
  assumes "createRoomBooking now u body st = Inr (st', b)"
  shows "\<exists>room hotel ow. findRoom (rooms st) (cb_roomId body) = Some room
           \<and> findHotel (hotels st) (r_hotelId room) = Some hotel
           \<and> findUser (users st) (h_ownerId hotel) = Some ow
           \<and> b = \<lparr>b_id = newObjectId (bookings st), userId = u_id u, ownerId = u_id ow,
                   roomId = cb_roomId body, hotelId = r_hotelId room,
                   checkIn = cb_checkIn body, checkOut = cb_checkOut body,
                   adults = cb_adults body, children = cb_children body,
                   price = js_mul (basePrice room)
                             (of_int (nights (cb_checkIn body) (cb_checkOut body))),
                   status = pending\<rparr>
           \<and> bookings st' = bookings st @ [b]
           \<and> users st' = users st \<and> hotels st' = hotels st \<and> rooms st' = rooms st
           \<and> cb_checkIn body > now \<and> cb_checkOut body > cb_checkIn body
           \<and> checkRoomAvailability (bookings st) (cb_roomId body) (cb_checkIn body)
                (cb_checkOut body) None = []"
  using assms
  apply (simp add: createRoomBooking_def split: option.splits if_splits)
  apply (drule RoomBooking_create_result)
  apply auto
  done

section \<open>The operations on the sample data\<close>




section \<open>Facts about the listing\<close>

lemma set_limitDocs: "set (limitDocs l bs) \<subseteq> set bs"
  by (auto simp: limitDocs_def dest: in_set_takeD)

lemma set_sortBookings: "set (sortBookings k d bs) = set bs"
  by (simp add: sortBookings_def)

lemma getCityAdminBookings_members:
  assumes "getCityAdminBookings u q st = Inr bs" and "b \<in> set bs"
  shows "b \<in> set (bookings st)"
    and "\<exists>h \<in> set (hotels st). h_id h = hotelId b \<and> Some (h_cityId h) = u_cityId u"
    and "statusFilter (q_status q) b"
proof -
  let ?found = "filter (\<lambda>b. hotelId b \<in> set (map h_id
                   (filter (\<lambda>h. Some (h_cityId h) = u_cityId u) (hotels st)))
                 \<and> statusFilter (q_status q) b \<and> searchFilter (q_search q) b) (bookings st)"
  from assms(1) have "bs = limitDocs (q_pageSize q)
        (drop (nat ((q_page q - 1) * q_pageSize q))
           (sortBookings (q_sortKey q) (q_sortDir q) ?found))"
    by (simp add: getCityAdminBookings_def Let_def split: if_splits)
  with assms(2) set_limitDocs have "b \<in> set (drop (nat ((q_page q - 1) * q_pageSize q))
           (sortBookings (q_sortKey q) (q_sortDir q) ?found))"
    by blast
  then have "b \<in> set ?found"
    using set_sortBookings by (blast dest: in_set_dropD)
  then show "b \<in> set (bookings st)"
    and "\<exists>h \<in> set (hotels st). h_id h = hotelId b \<and> Some (h_cityId h) = u_cityId u"
    and "statusFilter (q_status q) b"
    by auto
qed

lemma distinct_ids_same_hotel:
  assumes "distinct (map h_id hs)" and "h \<in> set hs" and "h' \<in> set hs" and "h_id h = h_id h'"
  shows "h = h'"
  using assms by (meson distinct_map inj_onD)

section \<open>Facts about the invariant\<close>

lemma clash_sym: "clash b c \<longleftrightarrow> clash c b"
  by (auto simp: clash_def)

lemma noDoubleBooking_append:
  "noDoubleBooking (bs @ [b]) \<longleftrightarrow> noDoubleBooking bs \<and> (\<forall>c \<in> set bs. \<not> clash c b)"
  by (simp add: noDoubleBooking_def sorted_wrt_append)

lemma noDoubleBooking_iff:
  assumes "distinct (map b_id bs)"
  shows "noDoubleBooking bs \<longleftrightarrow>
           (\<forall>b \<in> set bs. \<forall>c \<in> set bs. b_id b \<noteq> b_id c \<longrightarrow> \<not> clash b c)"
  using assms
proof (induction bs)
  case Nil
  then show ?case by (simp add: noDoubleBooking_def)
next
  case (Cons a bs)
  then have ih: "noDoubleBooking bs \<longleftrightarrow>
           (\<forall>b \<in> set bs. \<forall>c \<in> set bs. b_id b \<noteq> b_id c \<longrightarrow> \<not> clash b c)"
    and fresh: "\<forall>c \<in> set bs. b_id a \<noteq> b_id c"
    by auto
  have "noDoubleBooking (a # bs) \<longleftrightarrow> (\<forall>c \<in> set bs. \<not> clash a c) \<and> noDoubleBooking bs"
    by (simp add: noDoubleBooking_def)
  also have "\<dots> \<longleftrightarrow> (\<forall>b \<in> set (a # bs). \<forall>c \<in> set (a # bs). b_id b \<noteq> b_id c \<longrightarrow> \<not> clash b c)"
    unfolding ih using fresh clash_sym by auto
  finally show ?case .
qed

lemma updateOne_map:
  assumes "distinct (map b_id bs)"
  shows "updateOne i f bs = map (\<lambda>b. if b_id b = i then f b else b) bs"
  using assms
proof (induction bs)
  case Nil
  then show ?case by simp
next
  case (Cons a bs)
  show ?case
  proof (cases "b_id a = i")
    case True
    from Cons.prems have "b_id a \<notin> b_id ` set bs" by simp
    with True have "\<forall>b \<in> set bs. b_id b \<noteq> i" by blast
    then have "map (\<lambda>b. if b_id b = i then f b else b) bs = bs"
      by (simp add: map_idI)
    with True show ?thesis by simp
  next
    case False
    with Cons show ?thesis by simp
  qed
qed

lemma map_b_id_updateOne:
  assumes "\<And>b. b_id (f b) = b_id b"
  shows "map b_id (updateOne i f bs) = map b_id bs"
  using assms by (induction bs) auto

lemma noDoubleBooking_updateOne:
  assumes d: "distinct (map b_id bs)" and inv: "noDoubleBooking bs"
    and ids: "\<And>b. b_id (f b) = b_id b"
    and ok: "\<And>b c. b \<in> set bs \<Longrightarrow> c \<in> set bs \<Longrightarrow> b_id b = i \<Longrightarrow> b_id c \<noteq> i
               \<Longrightarrow> \<not> clash (f b) c"
  shows "noDoubleBooking (updateOne i f bs)"
proof -
  let ?g = "\<lambda>b. if b_id b = i then f b else b"
  have d': "distinct (map b_id (updateOne i f bs))"
    using d by (simp add: map_b_id_updateOne [OF ids])
  have gid: "\<And>b. b_id (?g b) = b_id b" by (simp add: ids)
  have "\<not> clash (?g b) (?g c)"
    if bin: "b \<in> set bs" and cin: "c \<in> set bs" and ne: "b_id b \<noteq> b_id c" for b c
  proof -
    from inv bin cin ne have n: "\<not> clash b c"
      by (simp add: noDoubleBooking_iff [OF d])
    consider "b_id b = i" "b_id c \<noteq> i" | "b_id b \<noteq> i" "b_id c = i" | "b_id b \<noteq> i" "b_id c \<noteq> i"
      using ne by metis
    then show ?thesis
    proof cases
      case 1
      with ok [OF bin cin] show ?thesis by simp
    next
      case 2
      with ok [OF cin bin] clash_sym show ?thesis by simp
    next
      case 3
      with n show ?thesis by simp
    qed
  qed
  note pair = this
  have "\<forall>b' \<in> set (map ?g bs). \<forall>c' \<in> set (map ?g bs). b_id b' \<noteq> b_id c' \<longrightarrow> \<not> clash b' c'"
  proof (intro ballI impI)
    fix b' c'
    assume b': "b' \<in> set (map ?g bs)" and c': "c' \<in> set (map ?g bs)"
      and ne': "b_id b' \<noteq> b_id c'"
    from b' obtain b where b: "b \<in> set bs" "b' = ?g b" by auto
    from c' obtain c where c: "c \<in> set bs" "c' = ?g c" by auto
    from ne' have "b_id b \<noteq> b_id c"
      unfolding b(2) c(2) gid .
    from pair [OF b(1) c(1) this] show "\<not> clash b' c'"
      unfolding b(2) c(2) .
  qed
  then show ?thesis
    using d' by (simp add: noDoubleBooking_iff updateOne_map [OF d])
qed

lemma distinct_ids_same_booking:
  assumes "distinct (map b_id bs)" and "b \<in> set bs" and "c \<in> set bs" and "b_id b = b_id c"
  shows "b = c"
  using assms by (meson distinct_map inj_onD)

lemma fold_max_ge: "(a::nat) \<le> fold max xs a"
proof (induction xs arbitrary: a)
  case Nil
  show ?case by simp
next
  case (Cons x xs)
  have "a \<le> max x a" by simp
  also have "\<dots> \<le> fold max xs (max x a)" by (rule Cons.IH)
  finally show ?case by simp
qed

lemma fold_max_member: "x \<in> set xs \<Longrightarrow> (x::nat) \<le> fold max xs a"
proof (induction xs arbitrary: a)
  case Nil
  then show ?case by simp
next
  case (Cons y xs)
  show ?case
  proof (cases "x = y")
    case True
    have "x \<le> max y a" using True by simp
    also have "\<dots> \<le> fold max xs (max y a)" by (rule fold_max_ge)
    finally show ?thesis by simp
  next
    case False
    with Cons.prems have "x \<in> set xs" by simp
    from Cons.IH [OF this] show ?thesis by simp
  qed
qed

lemma newObjectId_fresh: "newObjectId bs \<notin> set (map b_id bs)"
proof
  assume "newObjectId bs \<in> set (map b_id bs)"
  from fold_max_member [OF this, of 0] show False
    by (simp add: newObjectId_def)
qed

lemma createRoomBooking_preserves:
  assumes c: "createRoomBooking now u body st = Inr (st', b)"
    and d: "distinct (map b_id (bookings st))" and inv: "noDoubleBooking (bookings st)"
  shows "distinct (map b_id (bookings st'))" and "noDoubleBooking (bookings st')"
proof -
  from createRoomBooking_result [OF c]
  have bs': "bookings st' = bookings st @ [b]"
    and idb: "b_id b = newObjectId (bookings st)"
    and f: "roomId b = cb_roomId body" "checkIn b = cb_checkIn body"
      "checkOut b = cb_checkOut body"
    and free: "checkRoomAvailability (bookings st) (cb_roomId body) (cb_checkIn body)
                (cb_checkOut body) None = []"
    by auto
  from d newObjectId_fresh [of "bookings st"] show "distinct (map b_id (bookings st'))"
    by (simp add: bs' idb)
  have "\<not> clash c b" if "c \<in> set (bookings st)" for c
    using free that f
    by (auto simp: checkRoomAvailability_def filter_empty_conv clash_def active_def)
  with inv show "noDoubleBooking (bookings st')"
    by (simp add: bs' noDoubleBooking_append)
qed

lemma inactive_no_clash: "\<not> active b \<Longrightarrow> \<not> clash b c"
  by (simp add: clash_def)

lemma cancelBooking_preserves:
  assumes c: "cancelBooking now u i st = Inr (st', r)"
    and d: "distinct (map b_id (bookings st))" and inv: "noDoubleBooking (bookings st)"
  shows "distinct (map b_id (bookings st'))" and "noDoubleBooking (bookings st')"
proof -
  let ?f = "applyUpdate (noUpdate\<lparr>ud_status := Some cancelled\<rparr>)"
  from c have bs': "bookings st' = updateOne i ?f (bookings st)"
    by (auto simp: cancelBooking_def findByIdAndUpdate_def split: option.splits if_splits)
  show "distinct (map b_id (bookings st'))"
    using d by (simp add: bs' map_b_id_updateOne)
  have "\<not> clash (?f b) c" for b c
    by (rule inactive_no_clash) (simp add: applyUpdate_status_only active_def)
  with noDoubleBooking_updateOne [OF d inv, of ?f i] show "noDoubleBooking (bookings st')"
    by (simp add: bs')
qed

lemma updateBooking_preserves:
  assumes c: "updateBooking now t u i body st = Inr (st', r)"
    and d: "distinct (map b_id (bookings st))" and inv: "noDoubleBooking (bookings st)"
  shows "distinct (map b_id (bookings st'))" and "noDoubleBooking (bookings st')"
proof -
  from updateBooking_guard [OF c] obtain b0 where b0: "findBooking (bookings st) i = Some b0"
    by blast
  from findBooking_Some_id [OF b0] have b0i: "b_id b0 = i" "b0 \<in> set (bookings st)"
    by simp_all
  have same: "b = b0" if "b \<in> set (bookings st)" "b_id b = i" for b
    by (rule distinct_ids_same_booking [OF d that(1) b0i(2)]) (simp add: that(2) b0i(1))
  let ?changed = "ub_checkIn body \<noteq> None \<or> ub_checkOut body \<noteq> None \<or> ub_roomId body \<noteq> None"
  have "\<exists>ud. bookings st' = updateOne i (applyUpdate ud) (bookings st)
          \<and> (\<forall>c \<in> set (bookings st). b_id c \<noteq> i \<longrightarrow> \<not> clash (applyUpdate ud b0) c)"
  proof (cases ?changed)
    case True
    define ci where "ci = (case ub_checkIn body of Some v \<Rightarrow> v | None \<Rightarrow> checkIn b0)"
    define co where "co = (case ub_checkOut body of Some v \<Rightarrow> v | None \<Rightarrow> checkOut b0)"
    define rid where "rid = (case ub_roomId body of Some v \<Rightarrow> v | None \<Rightarrow> roomId b0)"
    from updateBooking_changed_dates [OF c b0 True ci_def co_def rid_def]
    obtain room :: room where av: "checkRoomAvailability (bookings st) rid ci co (Some i) = []"
      and upd: "findByIdAndUpdate now t st i
               ((restOfBody body)\<lparr>ud_price := Some (js_mul (basePrice room) (of_int (nights ci co)))\<rparr>)
               = Inr (st', r)"
      by blast
    let ?ud = "(restOfBody body)\<lparr>ud_price := Some (js_mul (basePrice room) (of_int (nights ci co)))\<rparr>"
    have f: "checkIn (applyUpdate ?ud b0) = ci" "checkOut (applyUpdate ?ud b0) = co"
      "roomId (applyUpdate ?ud b0) = rid"
      by (auto simp: applyUpdate_fields restOfBody_def ci_def co_def rid_def
            split: option.splits)
    have "\<not> clash (applyUpdate ?ud b0) c" if "c \<in> set (bookings st)" "b_id c \<noteq> i" for c
      using av that f
      by (auto simp: checkRoomAvailability_def filter_empty_conv clash_def active_def)
    with findByIdAndUpdate_result(2) [OF upd b0] show ?thesis by blast
  next
    case False
    then have n: "ub_checkIn body = None" "ub_checkOut body = None" "ub_roomId body = None"
      by simp_all
    note upd = updateBooking_unchanged_dates [OF c b0 n]
    have f: "checkIn (applyUpdate (restOfBody body) b0) = checkIn b0"
      "checkOut (applyUpdate (restOfBody body) b0) = checkOut b0"
      "roomId (applyUpdate (restOfBody body) b0) = roomId b0"
      "status (applyUpdate (restOfBody body) b0) = status b0"
      by (simp_all add: applyUpdate_fields restOfBody_def n)
    have "\<not> clash (applyUpdate (restOfBody body) b0) c"
      if "c \<in> set (bookings st)" "b_id c \<noteq> i" for c
    proof -
      from inv that b0i have "\<not> clash b0 c"
        by (auto simp: noDoubleBooking_iff [OF d])
      then show ?thesis by (simp add: clash_def active_def f)
    qed
    with findByIdAndUpdate_result(2) [OF upd b0] show ?thesis by blast
  qed
  then obtain ud where bs': "bookings st' = updateOne i (applyUpdate ud) (bookings st)"
    and ok: "\<And>c. c \<in> set (bookings st) \<Longrightarrow> b_id c \<noteq> i \<Longrightarrow> \<not> clash (applyUpdate ud b0) c"
    by blast
  show "distinct (map b_id (bookings st'))"
    using d by (simp add: bs' map_b_id_updateOne)
  have "\<not> clash (applyUpdate ud b) c"
    if "b \<in> set (bookings st)" "c \<in> set (bookings st)" "b_id b = i" "b_id c \<noteq> i" for b c
    using ok [OF that(2,4)] same [OF that(1,3)] by simp
  with noDoubleBooking_updateOne [OF d inv, of "applyUpdate ud" i]
  show "noDoubleBooking (bookings st')"
    by (simp add: bs')
qed

lemma updateBookingStatus_preserves_unless_revived:
  assumes c: "updateBookingStatus now u i s st = Inr (st', r)"
    and d: "distinct (map b_id (bookings st))" and inv: "noDoubleBooking (bookings st)"
    and b0: "findBooking (bookings st) i = Some b0"
    and safe: "active b0 \<or> s = ''cancelled'' \<or> s = ''rejected''"
  shows "distinct (map b_id (bookings st'))" and "noDoubleBooking (bookings st')"
proof -
  from c b0 obtain v where v: "status_of_string s = Some v"
    and bs': "bookings st' = updateOne i (applyUpdate (noUpdate\<lparr>ud_status := Some v\<rparr>))
                (bookings st)"
    by (auto simp: updateBookingStatus_def findByIdAndUpdate_def Let_def
          split: option.splits if_splits)
  let ?f = "applyUpdate (noUpdate\<lparr>ud_status := Some v\<rparr>)"
  from findBooking_Some_id [OF b0] have b0i: "b_id b0 = i" "b0 \<in> set (bookings st)"
    by simp_all
  have same: "b = b0" if "b \<in> set (bookings st)" "b_id b = i" for b
    by (rule distinct_ids_same_booking [OF d that(1) b0i(2)]) (simp add: that(2) b0i(1))
  show "distinct (map b_id (bookings st'))"
    using d by (simp add: bs' map_b_id_updateOne)
  have "\<not> clash (?f b0) c" if "c \<in> set (bookings st)" "b_id c \<noteq> i" for c
  proof (cases "v = cancelled \<or> v = rejected")
    case True
    then have "\<not> active (?f b0)" by (auto simp: applyUpdate_status_only active_def)
    then show ?thesis by (rule inactive_no_clash)
  next
    case False
    with v safe have a: "active b0" by (auto split: if_splits)
    from inv that b0i have "\<not> clash b0 c"
      by (auto simp: noDoubleBooking_iff [OF d])
    with a show ?thesis by (simp add: clash_def active_def applyUpdate_status_only)
  qed
  then have "\<not> clash (?f b) c"
    if "b \<in> set (bookings st)" "c \<in> set (bookings st)" "b_id b = i" "b_id c \<noteq> i" for b c
    using same [OF that(1,3)] that(2,4) by simp
  with noDoubleBooking_updateOne [OF d inv, of ?f i]
  show "noDoubleBooking (bookings st')"
    by (simp add: bs')
qed

section \<open>Facts about status changes and derived owners\<close>

lemma updateOne_same:
  "findBooking bs i = Some b \<Longrightarrow> f b = b \<Longrightarrow> updateOne i f bs = bs"
  by (induction bs) (auto simp: findBooking_def split: if_splits)

lemma updateBookingStatus_same_status_noop:
  assumes "findBooking (bookings st) i = Some b"
    and "ownerId b = u_id u \<or> role u = super_admin"
    and "status_of_string s = Some (status b)"
  shows "updateBookingStatus now u i s st = Inr (st, Some b)"
proof -
  have same: "applyUpdate (noUpdate\<lparr>ud_status := Some (status b)\<rparr>) b = b"
    by (simp add: applyUpdate_status_only)
  have "updateOne i (applyUpdate (noUpdate\<lparr>ud_status := Some (status b)\<rparr>)) (bookings st)
          = bookings st"
    using assms(1) same by (rule updateOne_same)
  with assms same show ?thesis
    by (simp add: updateBookingStatus_def findByIdAndUpdate_def
          del: status_of_string.simps)
qed

lemma getBookingById_populated:
  assumes "findBooking (bookings st) i = Some b"
    and "findUser (users st) (userId b) = Some cu"
    and "findUser (users st) (ownerId b) = Some ow"
  shows "getBookingById u i st =
           (if role u = super_admin then Inr b
            else Inl (AppError ''You do not have permission to view this booking'' 403))"
  using assms by (simp add: getBookingById_def populate_def)

lemma findUser_Some_id: "findUser us i = Some x \<Longrightarrow> u_id x = i"
  by (auto simp: findUser_def find_Some_iff)

lemma createRoomBooking_derives_owner:
  assumes "createRoomBooking now u body st = Inr (st', b)"
  shows "\<exists>room hotel. findRoom (rooms st) (roomId b) = Some room \<and> hotelId b = r_hotelId room
           \<and> findHotel (hotels st) (hotelId b) = Some hotel \<and> ownerId b = h_ownerId hotel
           \<and> roomId b = cb_roomId body \<and> userId b = u_id u"
  using createRoomBooking_result [OF assms] by (auto dest: findUser_Some_id)

section \<open>A sequence of requests\<close>

lemma scenario_step1:
  "postRoomBooking 1740787200000 alice stayA store0
     = Inr (store0\<lparr>bookings := [bookingA]\<rparr>, bookingA)"
  by (simp add: route_defs model_defs sample_defs stayA_def stayB_def bookingA_def bookingB_def
        js_mul_exact)

lemma scenario_step2:
  "deleteRoomBooking 1740787200000 alice 1 (store0\<lparr>bookings := [bookingA]\<rparr>)
     = Inr (store0\<lparr>bookings := [bookingA\<lparr>status := cancelled\<rparr>]\<rparr>,
            Some (bookingA\<lparr>status := cancelled\<rparr>))"
  by (simp add: route_defs model_defs sample_defs bookingA_def bookingB_def)

lemma scenario_step3:
  "postRoomBooking 1740787200000 bob stayB
       (store0\<lparr>bookings := [bookingA\<lparr>status := cancelled\<rparr>]\<rparr>)
     = Inr (store0\<lparr>bookings := [bookingA\<lparr>status := cancelled\<rparr>, bookingB]\<rparr>, bookingB)"
  by (simp add: route_defs model_defs sample_defs stayA_def stayB_def bookingA_def bookingB_def
        js_mul_exact)

lemma scenario_step4:
  "patchBookingStatus 1740787200000 olga 1 ''confirmed''
       (store0\<lparr>bookings := [bookingA\<lparr>status := cancelled\<rparr>, bookingB]\<rparr>)
     = Inr (store0\<lparr>bookings := [bookingA\<lparr>status := confirmed\<rparr>, bookingB]\<rparr>,
            Some (bookingA\<lparr>status := confirmed\<rparr>))"
  by (simp add: route_defs model_defs sample_defs bookingA_def bookingB_def)

section \<open>Availability check\<close>

text \<open>
  Claim C2. The availability check reports a conflict exactly when some booking of the
  room, other than the excluded one, is pending or confirmed and overlaps the candidate
  range under the half-open predicate \<open>existing.checkIn < candidate.checkOut\<close> and
  \<open>candidate.checkIn < existing.checkOut\<close>. In particular a booking that ends where the
  candidate starts, or starts where the candidate ends, is never among the conflicts, and
  neither is a cancelled or rejected booking.
\<close>

theorem hasConflict_iff_overlap:
  "(hasConflict bs rid ci co ex \<longleftrightarrow>
      (\<exists>b \<in> set bs. roomId b = rid \<and> (\<forall>x. ex = Some x \<longrightarrow> b_id b \<noteq> x)
         \<and> (status b = pending \<or> status b = confirmed)
         \<and> checkIn b < co \<and> ci < checkOut b))
   \<and> (checkOut b = ci \<or> co = checkIn b \<longrightarrow>
        b \<notin> set (checkRoomAvailability bs rid ci co ex))
   \<and> (status b = cancelled \<or> status b = rejected \<longrightarrow>
        b \<notin> set (checkRoomAvailability bs rid ci co ex))"
  by (auto simp: hasConflict_def checkRoomAvailability_def filter_empty_conv
           split: option.splits)

text \<open>
  On the sample booking (2025-03-10 to 2025-03-14, confirmed) and a cancelled copy of it:
  a stay from 03-12 to 03-15 conflicts, unless the booking itself is excluded; a stay from
  03-14 to 03-15 does not, and the route creates it.
\<close>

theorem hasConflict_iff_overlap_witness:
  "hasConflict [booking1, booking1\<lparr>b_id := 2, status := cancelled\<rparr>] 3
       1741737600000 1741996800000 None
   \<and> \<not> hasConflict [booking1, booking1\<lparr>b_id := 2, status := cancelled\<rparr>] 3
       1741910400000 1741996800000 None
   \<and> \<not> hasConflict [booking1, booking1\<lparr>b_id := 2, status := cancelled\<rparr>] 3
       1741737600000 1741996800000 (Some 1)
   \<and> checkOut booking1 = 1741910400000
   \<and> booking1 \<notin> set (checkRoomAvailability
         [booking1, booking1\<lparr>b_id := 2, status := cancelled\<rparr>] 3
         1741910400000 1741996800000 None)
   \<and> status (booking1\<lparr>b_id := 2, status := cancelled\<rparr>) = cancelled
   \<and> booking1\<lparr>b_id := 2, status := cancelled\<rparr>
        \<notin> set (checkRoomAvailability
               [booking1, booking1\<lparr>b_id := 2, status := cancelled\<rparr>] 3
               1741737600000 1741996800000 None)
   \<and> (\<exists>st' b. postRoomBooking 1740787200000 bob
                  \<lparr>cb_checkIn = 1741910400000, cb_checkOut = 1741996800000,
                   cb_adults = 1, cb_children = 0, cb_roomId = 3\<rparr> store1 = Inr (st', b))
   \<and> postRoomBooking 1740787200000 bob
         \<lparr>cb_checkIn = 1741737600000, cb_checkOut = 1741996800000,
          cb_adults = 1, cb_children = 0, cb_roomId = 3\<rparr> store1
       = Inl (AppError ''Room is not available for the selected dates'' 400)"
  using hasConflict_iff_overlap [of "[booking1, booking1\<lparr>b_id := 2, status := cancelled\<rparr>]"
          3 1741737600000 1741996800000 None "booking1\<lparr>b_id := 2, status := cancelled\<rparr>"]
        hasConflict_iff_overlap [of "[booking1, booking1\<lparr>b_id := 2, status := cancelled\<rparr>]"
          3 1741910400000 1741996800000 None booking1]
        hasConflict_iff_overlap [of "[booking1, booking1\<lparr>b_id := 2, status := cancelled\<rparr>]"
          3 1741737600000 1741996800000 "Some 1" booking1]
  by (simp add: route_defs model_defs sample_defs js_mul_exact)

section \<open>Cancellation\<close>

text \<open>
  Claim C5. For a booking that exists, \<^verbatim>\<open>cancelBooking\<close> succeeds exactly when the
  principal's identifier is the booking's \<^verbatim>\<open>userId\<close>, the status is pending or
  confirmed, and the hours until check-in exceed 24. On success the stored and returned
  booking is the old one with status cancelled. A confirmed booking of the principal is
  refused with status 400 ten hours before check-in and cancelled thirty hours before.
\<close>

theorem cancelBooking_exactly:
  "findBooking (bookings st) i = Some b \<Longrightarrow>
     ((\<exists>r. cancelBooking now u i st = Inr r) \<longleftrightarrow>
        (u_id u = userId b \<and> (status b = pending \<or> status b = confirmed)
         \<and> real_of_int (checkIn b - now) / (1000 * 60 * 60) > 24))
     \<and> (\<forall>st' r. cancelBooking now u i st = Inr (st', r) \<longrightarrow>
          r = Some (b\<lparr>status := cancelled\<rparr>)
          \<and> findBooking (bookings st') i = Some (b\<lparr>status := cancelled\<rparr>))
     \<and> (u_id u = userId b \<and> status b = confirmed
          \<and> checkIn b - now = 10 * (1000 * 60 * 60) \<longrightarrow>
          cancelBooking now u i st
            = Inl (AppError ''This booking cannot be cancelled. Check-in is too soon'' 400))
     \<and> (u_id u = userId b \<and> status b = confirmed
          \<and> checkIn b - now = 30 * (1000 * 60 * 60) \<longrightarrow>
          (\<exists>st'. cancelBooking now u i st = Inr (st', Some (b\<lparr>status := cancelled\<rparr>))))"
  by (auto simp: cancelBooking_def canBeCancelled_def hoursUntilCheckIn_def
        findByIdAndUpdate_def applyUpdate_status_only findBooking_updateOne)

text \<open>
  The sample booking checks in on 2025-03-10 at 00:00 UTC: \<open>1741456800000\<close> is thirty
  hours earlier and \<open>1741528800000\<close> is ten hours earlier.
\<close>

theorem cancelBooking_exactly_witness:
  "findBooking (bookings store1) 1 = Some booking1
   \<and> (\<exists>st'. cancelBooking 1741456800000 alice 1 store1
               = Inr (st', Some (booking1\<lparr>status := cancelled\<rparr>)))
   \<and> cancelBooking 1741528800000 alice 1 store1
       = Inl (AppError ''This booking cannot be cancelled. Check-in is too soon'' 400)
   \<and> (\<nexists>r. cancelBooking 1741456800000 bob 1 store1 = Inr r)"
  using cancelBooking_exactly [of store1 1 booking1 1741456800000 alice]
        cancelBooking_exactly [of store1 1 booking1 1741528800000 alice]
        cancelBooking_exactly [of store1 1 booking1 1741456800000 bob]
  by (simp add: store1_def store0_def booking1_def alice_def bob_def findBooking_def)

section \<open>Reading a booking\<close>

text \<open>
  Claim C8. \<^verbatim>\<open>getBookingById\<close> should return a booking to the customer who made it,
  to the owner of its hotel and to a super admin, and refuse everyone else with status
  403. It checks ownership after populating \<^verbatim>\<open>userId\<close> and \<^verbatim>\<open>ownerId\<close>, so
  \<^verbatim>\<open>isOwnedByUser\<close> and \<^verbatim>\<open>isOwnedByHotelOwner\<close> compare the text of a document
  with the text of an identifier, and only the super admin passes
  (\<open>getBookingById_populated\<close>): the customer who made the sample booking and the owner
  of its hotel are refused.
\<close>

theorem getBookingById_refuses_owning_customer:
  "findBooking (bookings store1) 1 = Some booking1
   \<and> userId booking1 = u_id alice
   \<and> getBookingById alice 1 store1
       = Inl (AppError ''You do not have permission to view this booking'' 403)
   \<and> ownerId booking1 = u_id olga
   \<and> getBookingById olga 1 store1
       = Inl (AppError ''You do not have permission to view this booking'' 403)
   \<and> getBookingById root_admin 1 store1 = Inr booking1"
  by (simp add: getBookingById_def populate_def findBooking_def findUser_def sample_defs)

section \<open>Facts about editing\<close>









section \<open>Pricing\<close>




section \<open>Editing a booking\<close>




section \<open>Check-in in the future\<close>

text \<open>
  Claim C10. A request to create a booking whose check-in is at or before the current
  time fails and creates nothing: on the route, a customer's request is answered by the
  validation middleware with a validation error on \<^verbatim>\<open>checkIn\<close> (a principal of
  another role is refused before validation), and the controller by itself never returns
  a booking for such a request.
\<close>

theorem createBooking_requires_future_checkIn:
  "cb_checkIn body \<le> now \<Longrightarrow>
     (role u = customer \<longrightarrow> postRoomBooking now u body st = Inl (JoiValidation ''checkIn''))
     \<and> (\<exists>e. postRoomBooking now u body st = Inl e)
     \<and> (\<exists>e. createRoomBooking now u body st = Inl e)"
proof (intro conjI impI)
  assume le: "cb_checkIn body \<le> now"
  have h: "\<exists>e. createRoomBooking now u body st = Inl e"
  proof (cases "createRoomBooking now u body st")
    case (Inl e)
    then show ?thesis by blast
  next
    case (Inr p)
    obtain st' b where "p = (st', b)" by (cases p)
    with Inr createRoomBooking_result [of now u body st st' b] le show ?thesis by auto
  qed
  show "\<exists>e. createRoomBooking now u body st = Inl e" by (rule h)
  show "\<exists>e. postRoomBooking now u body st = Inl e"
    using h le
    by (auto simp: postRoomBooking_def requireRole_def validateCreateRoomBooking_def
          createRoomBookingSchema_def split: option.splits)
  show "postRoomBooking now u body st = Inl (JoiValidation ''checkIn'')" if "role u = customer"
    using that le
    by (simp add: postRoomBooking_def requireRole_def validateCreateRoomBooking_def
          createRoomBookingSchema_def)
qed

theorem createBooking_requires_future_checkIn_witness:
  "cb_checkIn newYearStay \<le> 1735689600000
   \<and> role alice = customer
   \<and> postRoomBooking 1735689600000 alice newYearStay store0 = Inl (JoiValidation ''checkIn'')
   \<and> createRoomBooking 1735689600000 alice newYearStay store0
        = Inl (Thrown ''RoomBooking validation failed'')
   \<and> (\<exists>st' b. postRoomBooking 1735689599999 alice newYearStay store0 = Inr (st', b))"
  using createBooking_requires_future_checkIn [of newYearStay 1735689600000 alice store0]
  by (simp add: model_defs sample_defs postRoomBooking_def requireRole_def
        validateCreateRoomBooking_def createRoomBookingSchema_def js_mul_exact)

section \<open>City-scoped listing\<close>

text \<open>
  Claim C9. For a city admin, \<^verbatim>\<open>getCityAdminBookings\<close> fails with status 403 when
  the principal has no city; otherwise every booking it returns is a stored booking whose
  \<^verbatim>\<open>hotelId\<close> is the identifier of a hotel of the principal's city, and, identifiers
  of hotels being unique, no hotel with that identifier is in another city.
\<close>

theorem cityAdmin_sees_only_own_city:
  "role u = city_admin \<Longrightarrow>
     (u_cityId u = None \<longrightarrow>
        getCityAdminBookings u q st
          = Inl (AppError ''City admin must have an assigned city'' 403))
     \<and> (\<forall>bs. getCityAdminBookings u q st = Inr bs \<longrightarrow>
          (\<forall>b \<in> set bs. b \<in> set (bookings st)
             \<and> (\<exists>h \<in> set (hotels st). h_id h = hotelId b \<and> Some (h_cityId h) = u_cityId u)
             \<and> (distinct (map h_id (hotels st)) \<longrightarrow>
                  (\<forall>h \<in> set (hotels st). h_id h = hotelId b \<longrightarrow>
                     Some (h_cityId h) = u_cityId u))))"
proof (intro conjI impI allI ballI)
  assume "role u = city_admin" and "u_cityId u = None"
  then show "getCityAdminBookings u q st
          = Inl (AppError ''City admin must have an assigned city'' 403)"
    by (simp add: getCityAdminBookings_def)
next
  fix bs b
  assume r: "getCityAdminBookings u q st = Inr bs" and b: "b \<in> set bs"
  show "b \<in> set (bookings st)" by (rule getCityAdminBookings_members(1) [OF r b])
  show ex: "\<exists>h \<in> set (hotels st). h_id h = hotelId b \<and> Some (h_cityId h) = u_cityId u"
    by (rule getCityAdminBookings_members(2) [OF r b])
  fix h
  assume d: "distinct (map h_id (hotels st))" and h: "h \<in> set (hotels st)"
    and e: "h_id h = hotelId b"
  from ex obtain h' where h': "h' \<in> set (hotels st)" "h_id h' = hotelId b"
    "Some (h_cityId h') = u_cityId u" by blast
  from distinct_ids_same_hotel [OF d h h'(1)] e h'(2) have "h = h'" by simp
  with h'(3) show "Some (h_cityId h) = u_cityId u" by simp
qed

theorem cityAdmin_sees_only_own_city_witness:
  "role carl = city_admin \<and> u_cityId carl = Some 40
   \<and> getCityAdminBookings carl firstPage store3 = Inr [booking1]
   \<and> booking3 \<in> set (bookings store3)
   \<and> findHotel (hotels store3) (hotelId booking1) = Some hotel5 \<and> h_cityId hotel5 = 40
   \<and> findHotel (hotels store3) (hotelId booking3) = Some hotel6 \<and> h_cityId hotel6 = 41
   \<and> distinct (map h_id (hotels store3))
   \<and> role cara = city_admin
   \<and> getCityAdminBookings cara firstPage store3
       = Inl (AppError ''City admin must have an assigned city'' 403)"
  using cityAdmin_sees_only_own_city [of carl firstPage store3]
        cityAdmin_sees_only_own_city [of cara firstPage store3]
  by (simp add: getCityAdminBookings_def statusFilter_def searchFilter_def sortBookings_def
        limitDocs_def model_defs sample_defs booking3_def store3_def firstPage_def)

section \<open>The invariant under the operations\<close>

text \<open>
  Claim C1. The bookings of a room that are pending or confirmed do not overlap, and
  every operation keeps it so. Creating, editing and cancelling keep it
  (\<open>createRoomBooking_preserves\<close>, \<open>updateBooking_preserves\<close>,
  \<open>cancelBooking_preserves\<close>), and so does a status change of a pending or confirmed
  booking or to cancelled or rejected
  (\<open>updateBookingStatus_preserves_unless_revived\<close>). \<^verbatim>\<open>updateBookingStatus\<close>
  does not keep it when it confirms a cancelled booking. On the routes: a customer books
  2025-03-10 to 2025-03-14 and cancels, a second customer books 2025-03-11 to 2025-03-13
  in the same room, and the owner sets the first booking to confirmed. The store held no
  double booking before the last request and holds one after it.
\<close>

theorem revived_booking_double_books:
  "postRoomBooking 1740787200000 alice stayA store0
     = Inr (store0\<lparr>bookings := [bookingA]\<rparr>, bookingA)
   \<and> deleteRoomBooking 1740787200000 alice 1 (store0\<lparr>bookings := [bookingA]\<rparr>)
     = Inr (store0\<lparr>bookings := [bookingA\<lparr>status := cancelled\<rparr>]\<rparr>,
            Some (bookingA\<lparr>status := cancelled\<rparr>))
   \<and> postRoomBooking 1740787200000 bob stayB
       (store0\<lparr>bookings := [bookingA\<lparr>status := cancelled\<rparr>]\<rparr>)
     = Inr (store0\<lparr>bookings := [bookingA\<lparr>status := cancelled\<rparr>, bookingB]\<rparr>, bookingB)
   \<and> noDoubleBooking [bookingA\<lparr>status := cancelled\<rparr>, bookingB]
   \<and> patchBookingStatus 1740787200000 olga 1 ''confirmed''
       (store0\<lparr>bookings := [bookingA\<lparr>status := cancelled\<rparr>, bookingB]\<rparr>)
     = Inr (store0\<lparr>bookings := [bookingA\<lparr>status := confirmed\<rparr>, bookingB]\<rparr>,
            Some (bookingA\<lparr>status := confirmed\<rparr>))
   \<and> clash (bookingA\<lparr>status := confirmed\<rparr>) bookingB
   \<and> \<not> noDoubleBooking [bookingA\<lparr>status := confirmed\<rparr>, bookingB]"
  using scenario_step1 scenario_step2 scenario_step3 scenario_step4
  by (simp add: noDoubleBooking_def clash_def active_def bookingA_def bookingB_def)

section \<open>Status changes from a terminal state\<close>

text \<open>
  Claim C3. Setting the status a booking already has returns the booking and the store
  unchanged (\<open>updateBookingStatus_same_status_noop\<close>). Setting another status on a
  cancelled or rejected booking should fail; \<^verbatim>\<open>updateBookingStatus\<close> performs it: the
  owner confirms a cancelled booking and sets a rejected booking back to pending.
\<close>

theorem updateBookingStatus_revives_cancelled:
  "patchBookingStatus now olga 1 ''confirmed''
       (store0\<lparr>bookings := [booking1\<lparr>status := cancelled\<rparr>]\<rparr>)
     = Inr (store0\<lparr>bookings := [booking1\<lparr>status := confirmed\<rparr>]\<rparr>,
            Some (booking1\<lparr>status := confirmed\<rparr>))
   \<and> patchBookingStatus now olga 1 ''pending''
       (store0\<lparr>bookings := [booking1\<lparr>status := rejected\<rparr>]\<rparr>)
     = Inr (store0\<lparr>bookings := [booking1\<lparr>status := pending\<rparr>]\<rparr>,
            Some (booking1\<lparr>status := pending\<rparr>))"
  by (simp add: route_defs model_defs sample_defs)

section \<open>Owner and hotel of a booking\<close>

text \<open>
  Claim C4. The owner and the hotel of a booking are derived from its room when the
  booking is created (\<open>createRoomBooking_derives_owner\<close>) and should be derived again
  when an update changes the room. \<^verbatim>\<open>updateBooking\<close> does not: moving the sample
  booking to the room of the second hotel, whose owner is another user, leaves the hotel
  and the owner of the first room in the booking; and a \<^verbatim>\<open>hotelId\<close> in the request
  body is stored as it is.
\<close>

theorem updateBooking_keeps_stale_owner:
  "updateBooking 1740787200000 t bob 2 (noChange\<lparr>ub_roomId := Some 4\<rparr>) store2
     = Inr (store2\<lparr>bookings := [booking1, booking2\<lparr>roomId := 4, price := Finite 500\<rparr>]\<rparr>,
            Some (booking2\<lparr>roomId := 4, price := Finite 500\<rparr>))
   \<and> hotelId (booking2\<lparr>roomId := 4, price := Finite 500\<rparr>) = 5
   \<and> ownerId (booking2\<lparr>roomId := 4, price := Finite 500\<rparr>) = 8
   \<and> findRoom (rooms store2) 4 = Some room4 \<and> r_hotelId room4 = 6
   \<and> findHotel (hotels store2) 6 = Some hotel6 \<and> h_ownerId hotel6 = 11
   \<and> updateBooking 1740787200000 t bob 2 (noChange\<lparr>ub_hotelId := Some 6\<rparr>) store2
     = Inr (store2\<lparr>bookings := [booking1, booking2\<lparr>hotelId := 6\<rparr>]\<rparr>,
            Some (booking2\<lparr>hotelId := 6\<rparr>))"
  by (simp add: model_defs sample_defs js_mul_exact)

theorem updateBooking_keeps_stale_owner_witness:
  "updateBooking 1740787200000 None bob 2 (noChange\<lparr>ub_roomId := Some 4\<rparr>) store2
     = Inr (store2\<lparr>bookings := [booking1, booking2\<lparr>roomId := 4, price := Finite 500\<rparr>]\<rparr>,
            Some (booking2\<lparr>roomId := 4, price := Finite 500\<rparr>))
   \<and> hotelId (booking2\<lparr>roomId := 4, price := Finite 500\<rparr>) = 5
   \<and> ownerId (booking2\<lparr>roomId := 4, price := Finite 500\<rparr>) = 8
   \<and> findRoom (rooms store2) 4 = Some room4 \<and> r_hotelId room4 = 6
   \<and> findHotel (hotels store2) 6 = Some hotel6 \<and> h_ownerId hotel6 = 11"
  using updateBooking_keeps_stale_owner [of None] by simp

end
